theory Spec2Isabelle
  imports Complex_Main "HOL-Library.AList"
begin

section \<open>Values and errors\<close>

text \<open>
  The functions of \<^verbatim>\<open>utils/misc.py\<close> work on Python and numpy floats. A float is
  modelled as a real number, one of the two infinities, or the not-a-number value:
  arithmetic on finite values is exact (no binary rounding, no overflow), while the
  behaviour of the special values, on which the code relies (\<^verbatim>\<open>np.nan\<close>,
  \<^verbatim>\<open>pd.isna\<close>), is kept: every comparison with \<open>NaN\<close> is false.
\<close>

datatype fval = Fin real | PInf | NInf | NaN

text \<open>\<^verbatim>\<open>a < b\<close> on floats.\<close>

fun fless :: "fval \<Rightarrow> fval \<Rightarrow> bool" where
  "fless (Fin x) (Fin y) = (x < y)"
| "fless (Fin x) PInf = True"
| "fless NInf (Fin y) = True"
| "fless NInf PInf = True"
| "fless _ _ = False"

text \<open>\<^verbatim>\<open>a == b\<close> on floats: \<open>NaN\<close> is equal to nothing, itself included.\<close>

definition feq :: "fval \<Rightarrow> fval \<Rightarrow> bool" where
  "feq a b = (a \<noteq> NaN \<and> a = b)"

text \<open>\<^verbatim>\<open>a - b\<close> on floats.\<close>

fun fsub :: "fval \<Rightarrow> fval \<Rightarrow> fval" where
  "fsub NaN _ = NaN"
| "fsub _ NaN = NaN"
| "fsub (Fin x) (Fin y) = Fin (x - y)"
| "fsub (Fin x) PInf = NInf"
| "fsub (Fin x) NInf = PInf"
| "fsub PInf PInf = NaN"
| "fsub PInf _ = PInf"
| "fsub NInf NInf = NaN"
| "fsub NInf _ = NInf"

text \<open>
  \<^verbatim>\<open>round(x, n)\<close> on a float: the nearest multiple of \<open>10\<^sup>-\<^sup>n\<close>, a tie going to the
  even multiple; an infinity or \<open>NaN\<close> is returned as it is. \<open>n\<close> may be negative.
\<close>

definition round_half_even :: "real \<Rightarrow> int" where
  "round_half_even y =
     (let f = \<lfloor>y\<rfloor>; r = y - of_int f
      in if r < 1 / 2 then f else if 1 / 2 < r then f + 1 else if even f then f else f + 1)"

definition pow10 :: "int \<Rightarrow> real" where
  "pow10 n = (if 0 \<le> n then 10 ^ nat n else 1 / 10 ^ nat (- n))"

fun py_round :: "fval \<Rightarrow> int \<Rightarrow> fval" where
  "py_round (Fin x) n = Fin (of_int (round_half_even (x * pow10 n)) / pow10 n)"
| "py_round v n = v"

text \<open>\<^verbatim>\<open>np.sqrt\<close>: not-a-number below zero.\<close>

fun np_sqrt :: "fval \<Rightarrow> fval" where
  "np_sqrt (Fin x) = (if x < 0 then NaN else Fin (sqrt x))"
| "np_sqrt PInf = PInf"
| "np_sqrt NInf = NaN"
| "np_sqrt NaN = NaN"

text \<open>\<^verbatim>\<open>pd.isna\<close> on a float.\<close>

definition isna :: "fval \<Rightarrow> bool" where
  "isna v = (v = NaN)"

text \<open>The exceptions the code can meet; a function that can raise returns a sum.\<close>

datatype py_error = KeyError string | ValueError | IndexError

definition bind_err :: "py_error + 'a \<Rightarrow> ('a \<Rightarrow> py_error + 'b) \<Rightarrow> py_error + 'b" where
  "bind_err m f = (case m of Inl e \<Rightarrow> Inl e | Inr x \<Rightarrow> f x)"

section \<open>Two-regime identifier\<close>

text \<open>
  The parameter collection is a mapping from keys to floats; \<^verbatim>\<open>params[k]\<close> raises
  \<^verbatim>\<open>KeyError(k)\<close> on a missing key.
\<close>

type_synonym params = "string \<rightharpoonup> fval"

definition getitem :: "params \<Rightarrow> string \<Rightarrow> py_error + fval" where
  "getitem ps k = (case ps k of None \<Rightarrow> Inl (KeyError k) | Some v \<Rightarrow> Inr v)"

text \<open>The body of the \<^verbatim>\<open>try\<close> block: six reads, in the order of the source.\<close>

definition read_params :: "params \<Rightarrow> py_error + (fval \<times> fval \<times> fval \<times> fval \<times> fval \<times> fval)" where
  "read_params ps =
     bind_err (getitem ps ''p[0->0]'') (\<lambda>p11.
     bind_err (getitem ps ''p[1->0]'') (\<lambda>p21.
     bind_err (getitem ps ''const[0]'') (\<lambda>b1.
     bind_err (getitem ps ''const[1]'') (\<lambda>b2.
     bind_err (getitem ps ''sigma2[0]'') (\<lambda>var1.
     bind_err (getitem ps ''sigma2[1]'') (\<lambda>var2.
     Inr (p11, p21, b1, b2, var1, var2)))))))"

text \<open>
  \<^verbatim>\<open>str(e)\<close> of a \<^verbatim>\<open>KeyError\<close> is the \<^verbatim>\<open>repr\<close> of the key: the key between single
  quotes (none of the six keys needs an escape).
\<close>

definition py_repr :: "string \<Rightarrow> string" where
  "py_repr k = [CHR 0x27] @ k @ [CHR 0x27]"

text \<open>The step \<^verbatim>\<open>if decimals is not None: x = round(x, decimals)\<close>, for one value.\<close>

definition rnd :: "int option \<Rightarrow> fval \<Rightarrow> fval" where
  "rnd decimals x = (case decimals of None \<Rightarrow> x | Some d \<Rightarrow> py_round x d)"

text \<open>
  A regime descriptor is a dictionary from field names to floats, and the result a
  dictionary with the keys \<^verbatim>\<open>bull\<close> and \<^verbatim>\<open>bear\<close>; both are kept as association lists in
  the order of insertion.
\<close>

type_synonym descriptor = "(string \<times> fval) list"

definition regime1 :: "int option \<Rightarrow> fval \<times> fval \<times> fval \<times> fval \<times> fval \<times> fval \<Rightarrow> descriptor" where
  "regime1 decimals raw =
     (case raw of (p11, p21, b1, b2, var1, var2) \<Rightarrow>
        let p12 = fsub (Fin 1) p11
        in [(''beta0'', rnd decimals b1), (''var'', rnd decimals var1),
            (''p11'', rnd decimals p11), (''p12'', rnd decimals p12)])"

definition regime2 :: "int option \<Rightarrow> fval \<times> fval \<times> fval \<times> fval \<times> fval \<times> fval \<Rightarrow> descriptor" where
  "regime2 decimals raw =
     (case raw of (p11, p21, b1, b2, var1, var2) \<Rightarrow>
        let p22 = fsub (Fin 1) p21
        in [(''beta0'', rnd decimals b2), (''var'', rnd decimals var2),
            (''p22'', rnd decimals p22), (''p21'', rnd decimals p21)])"

text \<open>\<^verbatim>\<open>d[k]\<close> on a descriptor.\<close>

definition field :: "descriptor \<Rightarrow> string \<Rightarrow> py_error + fval" where
  "field d k = getitem (map_of d) k"

text \<open>
  The function returns what it printed and its result (\<open>None\<close> for Python's
  \<^verbatim>\<open>None\<close>). Only a \<^verbatim>\<open>KeyError\<close> of the \<^verbatim>\<open>try\<close> block is caught; any other exception
  would leave the function.
\<close>

definition mixed_message :: string where
  "mixed_message = ''Mixed regimes: Cannot clearly identify bull and bear regimes.''"

definition identify_2_regimes ::
  "params \<Rightarrow> int option \<Rightarrow> py_error + (string list \<times> (string \<times> descriptor) list option)" where
  "identify_2_regimes ps decimals =
     (case read_params ps of
        Inl (KeyError k) \<Rightarrow> Inr ([''Missing parameter: '' @ py_repr k], None)
      | Inl e \<Rightarrow> Inl e
      | Inr raw \<Rightarrow>
          let r1 = regime1 decimals raw; r2 = regime2 decimals raw
          in bind_err (field r1 ''beta0'') (\<lambda>beta1.
             bind_err (field r2 ''beta0'') (\<lambda>beta2.
             bind_err (field r1 ''var'') (\<lambda>v1.
             bind_err (field r2 ''var'') (\<lambda>v2.
               if fless (Fin 0) beta1 \<and> fless beta2 (Fin 0) \<and> fless v1 v2
               then Inr ([], Some [(''bull'', r1), (''bear'', r2)])
               else if fless (Fin 0) beta2 \<and> fless beta1 (Fin 0) \<and> fless v2 v1
               then Inr ([], Some [(''bull'', r2), (''bear'', r1)])
               else Inr ([mixed_message], None))))))"

text \<open>A call that leaves \<^verbatim>\<open>decimals\<close> out takes the default of the signature, 4.\<close>

definition identify_2_regimes_default ::
  "params \<Rightarrow> py_error + (string list \<times> (string \<times> descriptor) list option)" where
  "identify_2_regimes_default ps = identify_2_regimes ps (Some 4)"

text \<open>The keys the \<^verbatim>\<open>try\<close> block reads, in its order.\<close>

definition required_keys :: "string list" where
  "required_keys =
     [''p[0->0]'', ''p[1->0]'', ''const[0]'', ''const[1]'', ''sigma2[0]'', ''sigma2[1]'']"

section \<open>Three-regime identifier\<close>

text \<open>
  A pandas series is kept as the list of its (label, value) pairs in index order. Its
  labels are taken to be unique, as the parameter names of a fitted model are; then
  \<^verbatim>\<open>estimates[idx]\<close> for a label \<open>idx\<close> of the index is the value paired with it, and
  \<^verbatim>\<open>estimates.get(idx, np.nan)\<close> is a lookup.
\<close>

type_synonym series = "(string \<times> fval) list"

text \<open>String operations of Python: \<^verbatim>\<open>s.startswith(p)\<close>, \<^verbatim>\<open>s.split(c)\<close>, \<^verbatim>\<open>s.rstrip(c)\<close>.\<close>

definition startswith :: "string \<Rightarrow> string \<Rightarrow> bool" where
  "startswith p s = (take (length p) s = p)"

fun py_split :: "char \<Rightarrow> string \<Rightarrow> string list" where
  "py_split c [] = [[]]"
| "py_split c (x # xs) =
     (if x = c then [] # py_split c xs
      else (case py_split c xs of w # ws \<Rightarrow> (x # w) # ws | [] \<Rightarrow> [[x]]))"

definition py_rstrip :: "char \<Rightarrow> string \<Rightarrow> string" where
  "py_rstrip c s = rev (dropWhile (\<lambda>x. x = c) (rev s))"

text \<open>
  \<^verbatim>\<open>int(s)\<close> on a string, \<open>None\<close> standing for its \<^verbatim>\<open>ValueError\<close>: white space around the
  literal is dropped (on an ASCII string that is the space and the characters
  \<^verbatim>\<open>\t\<close>, \<^verbatim>\<open>\n\<close>, \<^verbatim>\<open>\v\<close>, \<^verbatim>\<open>\f\<close>, \<^verbatim>\<open>\r\<close>, codes 9 to 13 and 32), one sign may lead, and the digits
  may be grouped by single underscores. Strings are ASCII here; the interpreter's limit
  on the length of a decimal literal is left out.
\<close>

definition is_space :: "char \<Rightarrow> bool" where
  "is_space c = (of_char c \<in> {9, 10, 11, 12, 13, 32 :: nat})"

definition py_strip :: "string \<Rightarrow> string" where
  "py_strip s = rev (dropWhile is_space (rev (dropWhile is_space s)))"

definition is_digit :: "char \<Rightarrow> bool" where
  "is_digit c = (48 \<le> (of_char c :: nat) \<and> (of_char c :: nat) \<le> 57)"

definition digit_val :: "char \<Rightarrow> nat" where
  "digit_val c = of_char c - 48"

fun digits_acc :: "nat \<Rightarrow> string \<Rightarrow> nat option" where
  "digits_acc acc [] = Some acc"
| "digits_acc acc [c] = (if is_digit c then Some (10 * acc + digit_val c) else None)"
| "digits_acc acc (c # d # ds) =
     (if is_digit c then digits_acc (10 * acc + digit_val c) (d # ds)
      else if c = CHR ''_'' \<and> is_digit d then digits_acc (10 * acc + digit_val d) ds
      else None)"

definition py_digits :: "string \<Rightarrow> nat option" where
  "py_digits s =
     (case s of [] \<Rightarrow> None
      | c # cs \<Rightarrow> if is_digit c then digits_acc (digit_val c) cs else None)"

definition py_int :: "string \<Rightarrow> int option" where
  "py_int s =
     (case py_strip s of
        [] \<Rightarrow> None
      | c # r \<Rightarrow>
          if c = CHR ''-'' then map_option (\<lambda>n. - int n) (py_digits r)
          else if c = CHR ''+'' then map_option int (py_digits r)
          else map_option int (py_digits (c # r)))"

text \<open>\<^verbatim>\<open>str(i)\<close> of an integer, used by the f-string of the summary builder.\<close>

definition digit_char :: "nat \<Rightarrow> char" where
  "digit_char d = char_of (48 + d)"

function str_nat :: "nat \<Rightarrow> string" where
  "str_nat n = (if n < 10 then [digit_char n] else str_nat (n div 10) @ [digit_char (n mod 10)])"
  by pat_completeness auto
termination
  by (relation "measure (\<lambda>n. n)") auto

definition py_str_int :: "int \<Rightarrow> string" where
  "py_str_int i = (if i < 0 then CHR ''-'' # str_nat (nat (- i)) else str_nat (nat i))"

text \<open>The key expression \<^verbatim>\<open>int(idx.split('[')[1].rstrip(']'))\<close>.\<close>

definition regime_index :: "string \<Rightarrow> py_error + int" where
  "regime_index idx =
     (case py_split CHR ''['' idx of
        _ # part # _ \<Rightarrow>
          (case py_int (py_rstrip CHR '']'' part) of
             None \<Rightarrow> Inl ValueError
           | Some r \<Rightarrow> Inr r)
      | _ \<Rightarrow> Inl IndexError)"

text \<open>
  The dictionary comprehension, run over the index from left to right. A Python
  dictionary keeps its keys in the order of first insertion and a later entry with the
  same key replaces the value in place, which is \<open>AList.update\<close>.
\<close>

fun const_vals :: "series \<Rightarrow> (int \<times> fval) list \<Rightarrow> py_error + (int \<times> fval) list" where
  "const_vals [] acc = Inr acc"
| "const_vals ((idx, v) # rest) acc =
     (if startswith ''const['' idx
      then (case regime_index idx of
              Inl e \<Rightarrow> Inl e
            | Inr r \<Rightarrow> const_vals rest (AList.update r v acc))
      else const_vals rest acc)"

text \<open>
  \<^verbatim>\<open>sorted(xs, key=f)\<close>: a stable sort that compares keys with \<^verbatim>\<open><\<close> only. On keys that
  \<^verbatim>\<open><\<close> orders linearly every stable sort returns this list; where a key is \<open>NaN\<close> the
  order Python returns depends on its sorting algorithm and is not claimed here.
\<close>

fun py_insort :: "('k \<Rightarrow> 'k \<Rightarrow> bool) \<Rightarrow> ('a \<Rightarrow> 'k) \<Rightarrow> 'a \<Rightarrow> 'a list \<Rightarrow> 'a list" where
  "py_insort lt f x [] = [x]"
| "py_insort lt f x (y # ys) =
     (if lt (f y) (f x) then y # py_insort lt f x ys else x # y # ys)"

definition py_sorted :: "('k \<Rightarrow> 'k \<Rightarrow> bool) \<Rightarrow> ('a \<Rightarrow> 'k) \<Rightarrow> 'a list \<Rightarrow> 'a list" where
  "py_sorted lt f xs = foldr (py_insort lt f) xs []"

text \<open>
  Sorting the dictionary's keys by \<^verbatim>\<open>const_vals[r]\<close> is sorting its items by their
  values and keeping the keys. The unpacking into three names raises \<^verbatim>\<open>ValueError\<close>
  unless the list has exactly three elements.
\<close>

definition identify_3_regimes :: "series \<Rightarrow> py_error + (string \<times> int) list" where
  "identify_3_regimes estimates =
     bind_err (const_vals estimates []) (\<lambda>cv.
       let sorted_by_const = map fst (py_sorted fless snd cv)
       in (case sorted_by_const of
             [bear_reg, chop_reg, bull_reg] \<Rightarrow>
               Inr [(''Bull'', bull_reg), (''Bear'', bear_reg), (''Chop'', chop_reg)]
           | _ \<Rightarrow> Inl ValueError))"


definition param_label :: "string \<Rightarrow> int \<Rightarrow> string" where
  "param_label key reg = key @ ''['' @ py_str_int reg @ '']''"

section \<open>Three-regime summary builder\<close>

definition param_keys :: "(string \<times> string) list" where
  "param_keys =
     [(''const'', ''Constant''), (''ar.L1'', ''AR(1)''), (''ar.L2'', ''AR(2)''),
      (''sigma2'', ''Std. Deviation'')]"

definition label_order :: "string list" where
  "label_order = [''Bull'', ''Bear'', ''Chop'']"

text \<open>\<^verbatim>\<open>xs.index(x)\<close>: the first position of \<open>x\<close>, or \<^verbatim>\<open>ValueError\<close>.\<close>

fun list_index :: "'a list \<Rightarrow> 'a \<Rightarrow> py_error + nat" where
  "list_index [] x = Inl ValueError"
| "list_index (y # ys) x =
     (if y = x then Inr 0
      else (case list_index ys x of Inl e \<Rightarrow> Inl e | Inr n \<Rightarrow> Inr (Suc n)))"

text \<open>
  \<^verbatim>\<open>sorted\<close> with a key function that can raise: Python computes the key of every
  element first, then sorts.
\<close>

fun with_keys :: "('a \<Rightarrow> py_error + 'k) \<Rightarrow> 'a list \<Rightarrow> py_error + ('k \<times> 'a) list" where
  "with_keys f [] = Inr []"
| "with_keys f (x # xs) =
     (case f x of
        Inl e \<Rightarrow> Inl e
      | Inr k \<Rightarrow> (case with_keys f xs of Inl e \<Rightarrow> Inl e | Inr ks \<Rightarrow> Inr ((k, x) # ks)))"

definition py_sorted_key ::
  "('k \<Rightarrow> 'k \<Rightarrow> bool) \<Rightarrow> ('a \<Rightarrow> py_error + 'k) \<Rightarrow> 'a list \<Rightarrow> py_error + 'a list" where
  "py_sorted_key lt f xs = bind_err (with_keys f xs) (\<lambda>ks. Inr (map snd (py_sorted lt fst ks)))"

definition series_get :: "series \<Rightarrow> string \<Rightarrow> fval" where
  "series_get s k = (case map_of s k of None \<Rightarrow> NaN | Some v \<Rightarrow> v)"

text \<open>
  A row is the dictionary appended in the inner loop; a cell holds a string or a float.
\<close>

datatype cell = Str string | Num fval

type_synonym row = "(string \<times> cell) list"

definition make_row :: "series \<Rightarrow> series \<Rightarrow> series \<Rightarrow> string \<Rightarrow> int \<Rightarrow> string \<times> string \<Rightarrow> row" where
  "make_row estimates tvalues pvalues regime_label reg kp =
     (case kp of (key, pretty) \<Rightarrow>
        let idx = param_label key reg;
            est = series_get estimates idx;
            est = (if key = ''sigma2'' \<and> \<not> isna est then np_sqrt est else est)
        in [(''Regime'', Str regime_label), (''Parameter'', Str pretty), (''Estimate'', Num est),
            (''t-statistic'', Num (series_get tvalues idx)),
            (''p-value'', Num (series_get pvalues idx))])"

text \<open>The keys of every row dictionary, in the order the source writes them.\<close>

definition header :: "string list" where
  "header = [''Regime'', ''Parameter'', ''Estimate'', ''t-statistic'', ''p-value'']"

text \<open>
  \<^verbatim>\<open>pd.DataFrame(rows).set_index(keys)\<close> for a list of dictionaries: the columns are the
  keys of the rows in the order of first appearance, a cell a row lacks is \<open>NaN\<close>, and
  \<^verbatim>\<open>set_index\<close> moves the key columns into the row index, raising \<^verbatim>\<open>KeyError\<close> when one of
  them is not a column (as for an empty list of rows, which has no column at all); the
  error carries pandas' message, which lists the keys that are missing.
\<close>

fun join_strs :: "string \<Rightarrow> string list \<Rightarrow> string" where
  "join_strs sep [] = []"
| "join_strs sep [x] = x"
| "join_strs sep (x # y # ys) = x @ sep @ join_strs sep (y # ys)"

definition py_repr_list :: "string list \<Rightarrow> string" where
  "py_repr_list xs = ''['' @ join_strs '', '' (map py_repr xs) @ '']''"

record data_frame =
  df_index :: "cell list list"
  df_columns :: "string list"
  df_cells :: "cell list list"

definition cell_at :: "row \<Rightarrow> string \<Rightarrow> cell" where
  "cell_at r c = (case map_of r c of None \<Rightarrow> Num NaN | Some x \<Rightarrow> x)"

definition frame_set_index :: "row list \<Rightarrow> string list \<Rightarrow> py_error + data_frame" where
  "frame_set_index rows keys =
     (let cols = rev (remdups (rev (concat (map (map fst) rows))));
          others = filter (\<lambda>c. c \<notin> set keys) cols
      in if list_all (\<lambda>k. k \<in> set cols) keys
         then Inr \<lparr>df_index = map (\<lambda>r. map (cell_at r) keys) rows,
                   df_columns = others,
                   df_cells = map (\<lambda>r. map (cell_at r) others) rows\<rparr>
         else Inl (KeyError (''None of '' @ py_repr_list (filter (\<lambda>k. k \<notin> set cols) keys)
                             @ '' are in the columns'')))"

definition build_3_regimes_summary_table ::
  "series \<Rightarrow> series \<Rightarrow> series \<Rightarrow> (string \<times> int) list \<Rightarrow> py_error + data_frame" where
  "build_3_regimes_summary_table estimates tvalues pvalues label_map =
     bind_err (py_sorted_key (<) (\<lambda>x. list_index label_order (fst x)) label_map) (\<lambda>items.
       let rows = concat (map (\<lambda>(regime_label, reg).
                    map (make_row estimates tvalues pvalues regime_label reg) param_keys) items)
       in frame_set_index rows [''Regime'', ''Parameter''])"

definition build_3_regimes_summary :: "series \<Rightarrow> series \<Rightarrow> series \<Rightarrow> py_error + data_frame" where
  "build_3_regimes_summary estimates tvalues pvalues =
     bind_err (identify_3_regimes estimates) (\<lambda>label_map.
       build_3_regimes_summary_table estimates tvalues pvalues label_map)"

text \<open>
  The wrapper as the specification words it: first the label assignment from the
  estimates, then the table for that assignment.
\<close>

definition summary_from_assignment :: "series \<Rightarrow> series \<Rightarrow> series \<Rightarrow> py_error + data_frame" where
  "summary_from_assignment estimates tvalues pvalues =
     (case identify_3_regimes estimates of
        Inl e \<Rightarrow> Inl e
      | Inr label_map \<Rightarrow> build_3_regimes_summary_table estimates tvalues pvalues label_map)"

text \<open>
  Reading the table: the cells of the row with a given composite key
  (\<^verbatim>\<open>table.loc[key]\<close>), and the position of a label in the fixed order.
\<close>

definition frame_row :: "data_frame \<Rightarrow> cell list \<Rightarrow> cell list option" where
  "frame_row df k = map_of (zip (df_index df) (df_cells df)) k"

text \<open>
  The cells of a table row as the specification words them: the three series are looked
  up under \<^verbatim>\<open>prefix[regime]\<close>, and the estimate of the \<^verbatim>\<open>sigma2\<close> row is replaced by its
  square root.
\<close>

definition summary_cells :: "series \<Rightarrow> series \<Rightarrow> series \<Rightarrow> string \<Rightarrow> int \<Rightarrow> cell list" where
  "summary_cells estimates tvalues pvalues key reg =
     [Num (if key = ''sigma2'' then np_sqrt (series_get estimates (param_label key reg))
           else series_get estimates (param_label key reg)),
      Num (series_get tvalues (param_label key reg)),
      Num (series_get pvalues (param_label key reg))]"

definition label_pos :: "string \<Rightarrow> nat" where
  "label_pos l = (if l = ''Bull'' then 0 else if l = ''Bear'' then 1 else 2)"

section \<open>Classification detector\<close>

text \<open>
  A data frame of floats is kept as the list of its columns, each the list of its cells
  from the first row to the last; the ground truth is one such column. Rows are matched
  by position: both inputs are taken to carry the same row labels in the same order.
  \<^verbatim>\<open>pd.concat\<close> raises \<^verbatim>\<open>ValueError\<close> on an empty list of objects, which is what
  \<^verbatim>\<open>[ground_truth] * target_df.shape[1]\<close> is for a frame without columns.
\<close>

type_synonym frame = "fval list list"

definition pd_concat :: "fval list list \<Rightarrow> py_error + frame" where
  "pd_concat objs = (if objs = [] then Inl ValueError else Inr objs)"

definition frame_eq :: "frame \<Rightarrow> fval \<Rightarrow> bool list list" where
  "frame_eq df c = map (map (\<lambda>x. feq x c)) df"

definition mask_and :: "bool list list \<Rightarrow> bool list list \<Rightarrow> bool list list" where
  "mask_and a b = map2 (map2 (\<and>)) a b"

text \<open>\<^verbatim>\<open>result[mask] = v\<close>: the cells under a true mask cell take the value \<open>v\<close>.\<close>

definition set_where :: "frame \<Rightarrow> bool list list \<Rightarrow> fval \<Rightarrow> frame" where
  "set_where df msk v = map2 (map2 (\<lambda>x m. if m then v else x)) df msk"

text \<open>
  A frame built from an index and columns alone holds \<open>NaN\<close> in every cell, whatever the
  \<^verbatim>\<open>dtype\<close> asked for.
\<close>

definition empty_like :: "frame \<Rightarrow> frame" where
  "empty_like df = map (map (\<lambda>_. NaN)) df"

definition detect_tsm_classifications :: "frame \<Rightarrow> fval list \<Rightarrow> py_error + frame" where
  "detect_tsm_classifications target_df ground_truth =
     bind_err (pd_concat (replicate (length target_df) ground_truth)) (\<lambda>gt_broadcast.
       let result = empty_like target_df;
           result = set_where result
                      (mask_and (frame_eq target_df (Fin 1)) (frame_eq gt_broadcast (Fin 1))) (Fin 1);
           result = set_where result
                      (mask_and (frame_eq target_df (Fin (- 1))) (frame_eq gt_broadcast (Fin (- 1)))) (Fin 2);
           result = set_where result
                      (mask_and (frame_eq target_df (Fin 1)) (frame_eq gt_broadcast (Fin (- 1)))) (Fin 3);
           result = set_where result
                      (mask_and (frame_eq target_df (Fin (- 1))) (frame_eq gt_broadcast (Fin 1))) (Fin 4)
       in Inr result)"

text \<open>The code of one cell as the specification words it.\<close>

definition cell_code :: "fval \<Rightarrow> fval \<Rightarrow> fval" where
  "cell_code prediction truth =
     (if prediction = Fin 1 \<and> truth = Fin 1 then Fin 1
      else if prediction = Fin (- 1) \<and> truth = Fin (- 1) then Fin 2
      else if prediction = Fin 1 \<and> truth = Fin (- 1) then Fin 3
      else if prediction = Fin (- 1) \<and> truth = Fin 1 then Fin 4
      else NaN)"

section \<open>Properties of the two-regime identifier\<close>

lemma field_simps_descr:
  "field ((k, v) # d) k' = (if k = k' then Inr v else field d k')"
  by (simp add: field_def getitem_def)

lemma identify_2_regimes_present:
  assumes "read_params ps = Inr (p11, p21, b1, b2, var1, var2)"
  shows "identify_2_regimes ps d =
     Inr (if fless (Fin 0) (rnd d b1) \<and> fless (rnd d b2) (Fin 0) \<and> fless (rnd d var1) (rnd d var2)
          then ([], Some [(''bull'', regime1 d (p11, p21, b1, b2, var1, var2)),
                          (''bear'', regime2 d (p11, p21, b1, b2, var1, var2))])
          else if fless (Fin 0) (rnd d b2) \<and> fless (rnd d b1) (Fin 0) \<and> fless (rnd d var2) (rnd d var1)
          then ([], Some [(''bull'', regime2 d (p11, p21, b1, b2, var1, var2)),
                          (''bear'', regime1 d (p11, p21, b1, b2, var1, var2))])
          else ([mixed_message], None))"
  using assms
  by (simp add: identify_2_regimes_def regime1_def regime2_def field_simps_descr bind_err_def Let_def)

lemma round_half_even_near: "\<bar>y - of_int (round_half_even y)\<bar> \<le> 1 / 2"
  unfolding round_half_even_def Let_def by (auto simp: abs_if) linarith+

lemma pow10_pos: "0 < pow10 n"
  by (simp add: pow10_def)

lemma py_round_near:
  "\<exists>k::int. py_round (Fin x) n = Fin (of_int k / pow10 n) \<and> \<bar>x - of_int k / pow10 n\<bar> \<le> 1 / (2 * pow10 n)"
proof -
  define k where "k = round_half_even (x * pow10 n)"
  have p: "0 < pow10 n" by (rule pow10_pos)
  have "\<bar>x * pow10 n - of_int k\<bar> \<le> 1 / 2"
    unfolding k_def by (rule round_half_even_near)
  then have "\<bar>x * pow10 n - of_int k\<bar> / pow10 n \<le> (1 / 2) / pow10 n"
    by (rule divide_right_mono) (use p in simp)
  moreover have "\<bar>x * pow10 n - of_int k\<bar> / pow10 n = \<bar>x - of_int k / pow10 n\<bar>"
    using p by (simp add: abs_div_pos diff_divide_distrib)
  ultimately have "\<bar>x - of_int k / pow10 n\<bar> \<le> 1 / (2 * pow10 n)"
    by simp
  then show ?thesis
    by (intro exI[of _ k]) (simp add: k_def)
qed


lemma read_params_present:
  assumes "ps ''p[0->0]'' = Some p11" "ps ''p[1->0]'' = Some p21"
    "ps ''const[0]'' = Some b1" "ps ''const[1]'' = Some b2"
    "ps ''sigma2[0]'' = Some var1" "ps ''sigma2[1]'' = Some var2"
  shows "read_params ps = Inr (p11, p21, b1, b2, var1, var2)"
  using assms by (simp add: read_params_def getitem_def bind_err_def)

lemma read_params_missing:
  assumes "find (\<lambda>k. ps k = None) required_keys = Some k"
  shows "read_params ps = Inl (KeyError k)"
  using assms
  by (simp add: required_keys_def read_params_def getitem_def bind_err_def
      split: if_splits option.splits)

lemma identify_2_regimes_missing:
  assumes "read_params ps = Inl (KeyError k)"
  shows "identify_2_regimes ps d = Inr ([''Missing parameter: '' @ py_repr k], None)"
  using assms by (simp add: identify_2_regimes_def)

lemma fless_asym: "fless a b \<Longrightarrow> \<not> fless b a"
  by (cases a; cases b) simp_all

lemma rnd_None: "rnd None x = x"
  by (simp add: rnd_def)

text \<open>
  Claim C1. When the six keys are present, the function returns a result other than
  \<open>None\<close> exactly when one regime has a positive \<open>beta0\<close>, the other a negative \<open>beta0\<close>,
  and the regime with the positive \<open>beta0\<close> has the strictly lower variance; the result
  then has that regime under \<^verbatim>\<open>bull\<close> and the other under \<^verbatim>\<open>bear\<close>. Regime A's
  descriptor holds \<open>beta0\<close> from \<^verbatim>\<open>const[0]\<close>, \<open>var\<close> from \<^verbatim>\<open>sigma2[0]\<close>, \<open>p11\<close> and
  \<open>p12 = 1 - p11\<close>; regime B's holds \<open>beta0\<close> from \<^verbatim>\<open>const[1]\<close>, \<open>var\<close> from \<^verbatim>\<open>sigma2[1]\<close>,
  \<open>p22 = 1 - p21\<close> and \<open>p21\<close>. The values of a descriptor are those left by the optional
  rounding step (\<open>rnd d\<close>), which changes nothing when \<^verbatim>\<open>decimals\<close> is \<^verbatim>\<open>None\<close>.
\<close>

theorem identify_2_regimes_bull_bear:
  assumes "ps ''p[0->0]'' = Some p11" and "ps ''p[1->0]'' = Some p21"
    and "ps ''const[0]'' = Some b1" and "ps ''const[1]'' = Some b2"
    and "ps ''sigma2[0]'' = Some var1" and "ps ''sigma2[1]'' = Some var2"
  shows "\<exists>out res. identify_2_regimes ps d = Inr (out, res) \<and>
    (let A = [(''beta0'', rnd d b1), (''var'', rnd d var1),
              (''p11'', rnd d p11), (''p12'', rnd d (fsub (Fin 1) p11))];
         B = [(''beta0'', rnd d b2), (''var'', rnd d var2),
              (''p22'', rnd d (fsub (Fin 1) p21)), (''p21'', rnd d p21)];
         bull_A = (fless (Fin 0) (rnd d b1) \<and> fless (rnd d b2) (Fin 0)
                   \<and> fless (rnd d var1) (rnd d var2));
         bull_B = (fless (Fin 0) (rnd d b2) \<and> fless (rnd d b1) (Fin 0)
                   \<and> fless (rnd d var2) (rnd d var1))
     in (res \<noteq> None) = (bull_A \<or> bull_B)
        \<and> (bull_A \<longrightarrow> res = Some [(''bull'', A), (''bear'', B)])
        \<and> (bull_B \<longrightarrow> res = Some [(''bull'', B), (''bear'', A)]))
    \<and> (\<forall>x. rnd None x = x)"
proof -
  have r: "read_params ps = Inr (p11, p21, b1, b2, var1, var2)"
    using assms by (rule read_params_present)
  show ?thesis
    unfolding identify_2_regimes_present[OF r]
    by (auto simp: Let_def regime1_def regime2_def rnd_None dest: fless_asym)
qed


theorem identify_2_regimes_bull_bear_witness:
  "\<exists>out. identify_2_regimes
      [''p[0->0]'' \<mapsto> Fin 0.9, ''p[1->0]'' \<mapsto> Fin 0.2, ''const[0]'' \<mapsto> Fin 0.02,
       ''const[1]'' \<mapsto> Fin (- 0.03), ''sigma2[0]'' \<mapsto> Fin 0.01, ''sigma2[1]'' \<mapsto> Fin 0.05]
      (Some 4)
    = Inr (out, Some [(''bull'', [(''beta0'', Fin 0.02), (''var'', Fin 0.01),
                                  (''p11'', Fin 0.9), (''p12'', Fin 0.1)]),
                      (''bear'', [(''beta0'', Fin (- 0.03)), (''var'', Fin 0.05),
                                  (''p22'', Fin 0.8), (''p21'', Fin 0.2)])])"
  using identify_2_regimes_bull_bear
    [of "[''p[0->0]'' \<mapsto> Fin 0.9, ''p[1->0]'' \<mapsto> Fin 0.2, ''const[0]'' \<mapsto> Fin 0.02,
          ''const[1]'' \<mapsto> Fin (- 0.03), ''sigma2[0]'' \<mapsto> Fin 0.01, ''sigma2[1]'' \<mapsto> Fin 0.05]"
        "Fin 0.9" "Fin 0.2" "Fin 0.02" "Fin (- 0.03)" "Fin 0.01" "Fin 0.05" "Some 4"]
  by (simp add: rnd_def round_half_even_def pow10_def Let_def)

lemma read_params_error:
  assumes "read_params ps = Inl e"
  shows "\<exists>k. e = KeyError k"
  using assms
  by (auto simp: read_params_def getitem_def bind_err_def split: option.splits)

lemma identify_2_regimes_returns: "identify_2_regimes ps d \<noteq> Inl e"
proof (cases "read_params ps")
  case (Inl e')
  then obtain k where "e' = KeyError k"
    using read_params_error by blast
  with Inl show ?thesis
    by (simp add: identify_2_regimes_missing)
next
  case (Inr raw)
  obtain p11 p21 b1 b2 var1 var2 where "raw = (p11, p21, b1, b2, var1, var2)"
    by (cases raw) auto
  with Inr show ?thesis
    by (simp add: identify_2_regimes_present)
qed

text \<open>
  Claim C5. The function never raises. When one of the six keys is absent it prints
  \<^verbatim>\<open>Missing parameter:\<close> followed by the first absent key, in the order the keys are
  read, and returns \<open>None\<close>; when all keys are present and neither regime qualifies as
  the bull regime (both constants positive, both negative, or the variances ordered
  against the signs) it prints the mixed-regimes message and returns \<open>None\<close>.
\<close>

theorem identify_2_regimes_failure_paths:
  "(\<forall>e. identify_2_regimes ps d \<noteq> Inl e)
   \<and> (find (\<lambda>k. ps k = None) required_keys = Some k \<longrightarrow>
        identify_2_regimes ps d = Inr ([''Missing parameter: '' @ py_repr k], None))
   \<and> (ps ''p[0->0]'' = Some p11 \<and> ps ''p[1->0]'' = Some p21
        \<and> ps ''const[0]'' = Some b1 \<and> ps ''const[1]'' = Some b2
        \<and> ps ''sigma2[0]'' = Some var1 \<and> ps ''sigma2[1]'' = Some var2
        \<and> \<not> (fless (Fin 0) (rnd d b1) \<and> fless (rnd d b2) (Fin 0)
              \<and> fless (rnd d var1) (rnd d var2))
        \<and> \<not> (fless (Fin 0) (rnd d b2) \<and> fless (rnd d b1) (Fin 0)
              \<and> fless (rnd d var2) (rnd d var1)) \<longrightarrow>
        identify_2_regimes ps d = Inr ([mixed_message], None))"
proof (intro conjI allI impI)
  fix e show "identify_2_regimes ps d \<noteq> Inl e"
    by (rule identify_2_regimes_returns)
next
  assume "find (\<lambda>k. ps k = None) required_keys = Some k"
  then have "read_params ps = Inl (KeyError k)"
    by (rule read_params_missing)
  then show "identify_2_regimes ps d = Inr ([''Missing parameter: '' @ py_repr k], None)"
    by (rule identify_2_regimes_missing)
next
  assume a: "ps ''p[0->0]'' = Some p11 \<and> ps ''p[1->0]'' = Some p21
        \<and> ps ''const[0]'' = Some b1 \<and> ps ''const[1]'' = Some b2
        \<and> ps ''sigma2[0]'' = Some var1 \<and> ps ''sigma2[1]'' = Some var2
        \<and> \<not> (fless (Fin 0) (rnd d b1) \<and> fless (rnd d b2) (Fin 0)
              \<and> fless (rnd d var1) (rnd d var2))
        \<and> \<not> (fless (Fin 0) (rnd d b2) \<and> fless (rnd d b1) (Fin 0)
              \<and> fless (rnd d var2) (rnd d var1))"
  then have r: "read_params ps = Inr (p11, p21, b1, b2, var1, var2)"
    by (intro read_params_present) simp_all
  from a show "identify_2_regimes ps d = Inr ([mixed_message], None)"
    unfolding identify_2_regimes_present[OF r] by auto
qed

theorem identify_2_regimes_failure_paths_witness:
  "identify_2_regimes
      [''p[0->0]'' \<mapsto> Fin 0.9, ''const[0]'' \<mapsto> Fin 0.02,
       ''const[1]'' \<mapsto> Fin (- 0.03), ''sigma2[0]'' \<mapsto> Fin 0.01, ''sigma2[1]'' \<mapsto> Fin 0.05]
      (Some 4)
    = Inr ([''Missing parameter: '' @ [CHR 0x27] @ ''p[1->0]'' @ [CHR 0x27]], None)
   \<and> identify_2_regimes
      [''p[0->0]'' \<mapsto> Fin 0.9, ''p[1->0]'' \<mapsto> Fin 0.2, ''const[0]'' \<mapsto> Fin 0.02,
       ''const[1]'' \<mapsto> Fin 0.03, ''sigma2[0]'' \<mapsto> Fin 0.01, ''sigma2[1]'' \<mapsto> Fin 0.05]
      (Some 4)
    = Inr ([''Mixed regimes: Cannot clearly identify bull and bear regimes.''], None)"
  using identify_2_regimes_failure_paths
    [of "[''p[0->0]'' \<mapsto> Fin 0.9, ''const[0]'' \<mapsto> Fin 0.02,
          ''const[1]'' \<mapsto> Fin (- 0.03), ''sigma2[0]'' \<mapsto> Fin 0.01, ''sigma2[1]'' \<mapsto> Fin 0.05]"
        "Some 4" "''p[1->0]''"]
    identify_2_regimes_failure_paths
    [of "[''p[0->0]'' \<mapsto> Fin 0.9, ''p[1->0]'' \<mapsto> Fin 0.2, ''const[0]'' \<mapsto> Fin 0.02,
          ''const[1]'' \<mapsto> Fin 0.03, ''sigma2[0]'' \<mapsto> Fin 0.01, ''sigma2[1]'' \<mapsto> Fin 0.05]"
        "Some 4" _ "Fin 0.9" "Fin 0.2" "Fin 0.02" "Fin 0.03" "Fin 0.01" "Fin 0.05"]
  by (simp add: required_keys_def py_repr_def mixed_message_def rnd_def round_half_even_def
      pow10_def Let_def)

text \<open>
  Claim C7. Whenever the function returns a result, every value of its two descriptors
  (\<open>p11\<close>, \<open>p21\<close>, \<open>p12\<close>, \<open>p22\<close>, both constants, both variances) has gone through the
  rounding step: with \<^verbatim>\<open>decimals = n\<close> it is \<^verbatim>\<open>round(x, n)\<close>, a multiple of \<open>10\<^sup>-\<^sup>n\<close> at
  most half a unit of the last place away from \<open>x\<close> (infinities and \<open>NaN\<close> unchanged);
  with \<^verbatim>\<open>decimals = None\<close> it is the value itself. The default precision is 4, and
  rounding \<open>0.023456\<close> to 2 places gives \<open>0.02\<close>.
\<close>

theorem identify_2_regimes_rounding:
  assumes "ps ''p[0->0]'' = Some p11" and "ps ''p[1->0]'' = Some p21"
    and "ps ''const[0]'' = Some b1" and "ps ''const[1]'' = Some b2"
    and "ps ''sigma2[0]'' = Some var1" and "ps ''sigma2[1]'' = Some var2"
    and "identify_2_regimes ps d = Inr (out, Some res)"
  shows "(let A = [(''beta0'', rnd d b1), (''var'', rnd d var1),
                   (''p11'', rnd d p11), (''p12'', rnd d (fsub (Fin 1) p11))];
              B = [(''beta0'', rnd d b2), (''var'', rnd d var2),
                   (''p22'', rnd d (fsub (Fin 1) p21)), (''p21'', rnd d p21)]
          in res = [(''bull'', A), (''bear'', B)] \<or> res = [(''bull'', B), (''bear'', A)])
    \<and> (\<forall>v. rnd None v = v)
    \<and> (\<forall>n v. rnd (Some n) v = py_round v n)
    \<and> (\<forall>n x. \<exists>k::int. py_round (Fin x) n = Fin (of_int k / pow10 n)
            \<and> \<bar>x - of_int k / pow10 n\<bar> \<le> 1 / (2 * pow10 n))
    \<and> py_round PInf n = PInf \<and> py_round NInf n = NInf \<and> py_round NaN n = NaN
    \<and> identify_2_regimes_default ps = identify_2_regimes ps (Some 4)
    \<and> py_round (Fin 0.023456) 2 = Fin 0.02"
proof -
  have r: "read_params ps = Inr (p11, p21, b1, b2, var1, var2)"
    using assms(1-6) by (rule read_params_present)
  have "(let A = [(''beta0'', rnd d b1), (''var'', rnd d var1),
                   (''p11'', rnd d p11), (''p12'', rnd d (fsub (Fin 1) p11))];
              B = [(''beta0'', rnd d b2), (''var'', rnd d var2),
                   (''p22'', rnd d (fsub (Fin 1) p21)), (''p21'', rnd d p21)]
          in res = [(''bull'', A), (''bear'', B)] \<or> res = [(''bull'', B), (''bear'', A)])"
    using assms(7) unfolding identify_2_regimes_present[OF r]
    by (auto simp: Let_def regime1_def regime2_def split: if_splits)
  moreover have "\<forall>n x. \<exists>k::int. py_round (Fin x) n = Fin (of_int k / pow10 n)
            \<and> \<bar>x - of_int k / pow10 n\<bar> \<le> 1 / (2 * pow10 n)"
    using py_round_near by blast
  moreover have "py_round (Fin 0.023456) 2 = Fin 0.02"
    by (simp add: round_half_even_def pow10_def Let_def)
  ultimately show ?thesis
    by (simp add: rnd_def identify_2_regimes_default_def)
qed

theorem identify_2_regimes_rounding_witness:
  "identify_2_regimes
      [''p[0->0]'' \<mapsto> Fin 0.9, ''p[1->0]'' \<mapsto> Fin 0.2, ''const[0]'' \<mapsto> Fin 0.023456,
       ''const[1]'' \<mapsto> Fin (- 0.03), ''sigma2[0]'' \<mapsto> Fin 0.01, ''sigma2[1]'' \<mapsto> Fin 0.05]
      (Some 2)
    = Inr ([], Some [(''bull'', [(''beta0'', Fin 0.02), (''var'', Fin 0.01),
                                 (''p11'', Fin 0.9), (''p12'', Fin 0.1)]),
                     (''bear'', [(''beta0'', Fin (- 0.03)), (''var'', Fin 0.05),
                                 (''p22'', Fin 0.8), (''p21'', Fin 0.2)])])
   \<and> identify_2_regimes
      [''p[0->0]'' \<mapsto> Fin 0.9, ''p[1->0]'' \<mapsto> Fin 0.2, ''const[0]'' \<mapsto> Fin 0.023456,
       ''const[1]'' \<mapsto> Fin (- 0.03), ''sigma2[0]'' \<mapsto> Fin 0.01, ''sigma2[1]'' \<mapsto> Fin 0.05]
      None
    = Inr ([], Some [(''bull'', [(''beta0'', Fin 0.023456), (''var'', Fin 0.01),
                                 (''p11'', Fin 0.9), (''p12'', Fin 0.1)]),
                     (''bear'', [(''beta0'', Fin (- 0.03)), (''var'', Fin 0.05),
                                 (''p22'', Fin 0.8), (''p21'', Fin 0.2)])])"
proof -
  let ?ps = "[''p[0->0]'' \<mapsto> Fin 0.9, ''p[1->0]'' \<mapsto> Fin 0.2, ''const[0]'' \<mapsto> Fin 0.023456,
       ''const[1]'' \<mapsto> Fin (- 0.03), ''sigma2[0]'' \<mapsto> Fin 0.01, ''sigma2[1]'' \<mapsto> Fin 0.05]"
  have r: "read_params ?ps = Inr (Fin 0.9, Fin 0.2, Fin 0.023456, Fin (- 0.03), Fin 0.01, Fin 0.05)"
    by (simp add: read_params_def getitem_def bind_err_def)
  have a: "identify_2_regimes ?ps (Some 2) =
      Inr ([], Some [(''bull'', regime1 (Some 2) (Fin 0.9, Fin 0.2, Fin 0.023456, Fin (- 0.03), Fin 0.01, Fin 0.05)),
                     (''bear'', regime2 (Some 2) (Fin 0.9, Fin 0.2, Fin 0.023456, Fin (- 0.03), Fin 0.01, Fin 0.05))])"
    unfolding identify_2_regimes_present[OF r]
    by (simp add: rnd_def round_half_even_def pow10_def Let_def)
  have b: "identify_2_regimes ?ps None =
      Inr ([], Some [(''bull'', regime1 None (Fin 0.9, Fin 0.2, Fin 0.023456, Fin (- 0.03), Fin 0.01, Fin 0.05)),
                     (''bear'', regime2 None (Fin 0.9, Fin 0.2, Fin 0.023456, Fin (- 0.03), Fin 0.01, Fin 0.05))])"
    unfolding identify_2_regimes_present[OF r]
    by (simp add: rnd_def)
  show ?thesis
    using identify_2_regimes_rounding[OF _ _ _ _ _ _ a, of "Fin 0.9" "Fin 0.2" "Fin 0.023456" "Fin (- 0.03)" "Fin 0.01" "Fin 0.05"]
      identify_2_regimes_rounding[OF _ _ _ _ _ _ b, of "Fin 0.9" "Fin 0.2" "Fin 0.023456" "Fin (- 0.03)" "Fin 0.01" "Fin 0.05"]
    unfolding a b
    by (simp add: regime1_def regime2_def rnd_def round_half_even_def pow10_def Let_def)
qed

text \<open>
  Claim C10. The bull/bear test reads the rounded values: with rounding enabled the
  result is not \<open>None\<close> exactly when the rounded constants and variances pass the test.
  For \<^verbatim>\<open>const[0] = 0.00001\<close>, \<^verbatim>\<open>const[1] = -0.03\<close>, \<^verbatim>\<open>sigma2[0] = 0.01\<close>,
  \<^verbatim>\<open>sigma2[1] = 0.05\<close> the raw values pass the test (and the call with
  \<^verbatim>\<open>decimals = None\<close> returns a result), but at the default precision \<open>0.00001\<close> is
  rounded to \<open>0\<close> and the function prints the mixed-regimes message and returns \<open>None\<close>.
\<close>

theorem classification_on_rounded_values:
  "(ps ''p[0->0]'' = Some p11 \<and> ps ''p[1->0]'' = Some p21
      \<and> ps ''const[0]'' = Some b1 \<and> ps ''const[1]'' = Some b2
      \<and> ps ''sigma2[0]'' = Some var1 \<and> ps ''sigma2[1]'' = Some var2 \<longrightarrow>
     (\<exists>out res. identify_2_regimes ps (Some n) = Inr (out, res) \<and>
        (res \<noteq> None) =
          (fless (Fin 0) (py_round b1 n) \<and> fless (py_round b2 n) (Fin 0)
             \<and> fless (py_round var1 n) (py_round var2 n)
           \<or> fless (Fin 0) (py_round b2 n) \<and> fless (py_round b1 n) (Fin 0)
             \<and> fless (py_round var2 n) (py_round var1 n))))
   \<and> fless (Fin 0) (Fin 0.00001) \<and> fless (Fin (- 0.03)) (Fin 0) \<and> fless (Fin 0.01) (Fin 0.05)
   \<and> py_round (Fin 0.00001) 4 = Fin 0
   \<and> identify_2_regimes_default
        [''p[0->0]'' \<mapsto> Fin 0.9, ''p[1->0]'' \<mapsto> Fin 0.2, ''const[0]'' \<mapsto> Fin 0.00001,
         ''const[1]'' \<mapsto> Fin (- 0.03), ''sigma2[0]'' \<mapsto> Fin 0.01, ''sigma2[1]'' \<mapsto> Fin 0.05]
      = Inr ([mixed_message], None)
   \<and> (\<exists>res. identify_2_regimes
        [''p[0->0]'' \<mapsto> Fin 0.9, ''p[1->0]'' \<mapsto> Fin 0.2, ''const[0]'' \<mapsto> Fin 0.00001,
         ''const[1]'' \<mapsto> Fin (- 0.03), ''sigma2[0]'' \<mapsto> Fin 0.01, ''sigma2[1]'' \<mapsto> Fin 0.05] None
      = Inr ([], Some res))"
proof (intro conjI impI)
  assume a: "ps ''p[0->0]'' = Some p11 \<and> ps ''p[1->0]'' = Some p21
      \<and> ps ''const[0]'' = Some b1 \<and> ps ''const[1]'' = Some b2
      \<and> ps ''sigma2[0]'' = Some var1 \<and> ps ''sigma2[1]'' = Some var2"
  then have r: "read_params ps = Inr (p11, p21, b1, b2, var1, var2)"
    by (intro read_params_present) simp_all
  show "\<exists>out res. identify_2_regimes ps (Some n) = Inr (out, res) \<and>
        (res \<noteq> None) =
          (fless (Fin 0) (py_round b1 n) \<and> fless (py_round b2 n) (Fin 0)
             \<and> fless (py_round var1 n) (py_round var2 n)
           \<or> fless (Fin 0) (py_round b2 n) \<and> fless (py_round b1 n) (Fin 0)
             \<and> fless (py_round var2 n) (py_round var1 n))"
    unfolding identify_2_regimes_present[OF r]
    by (auto simp: rnd_def)
next
  let ?ps = "[''p[0->0]'' \<mapsto> Fin 0.9, ''p[1->0]'' \<mapsto> Fin 0.2, ''const[0]'' \<mapsto> Fin 0.00001,
         ''const[1]'' \<mapsto> Fin (- 0.03), ''sigma2[0]'' \<mapsto> Fin 0.01, ''sigma2[1]'' \<mapsto> Fin 0.05]"
  have r: "read_params ?ps = Inr (Fin 0.9, Fin 0.2, Fin 0.00001, Fin (- 0.03), Fin 0.01, Fin 0.05)"
    by (simp add: read_params_def getitem_def bind_err_def)
  show "identify_2_regimes_default ?ps = Inr ([mixed_message], None)"
    unfolding identify_2_regimes_default_def identify_2_regimes_present[OF r]
    by (simp add: rnd_def round_half_even_def pow10_def Let_def)
  show "\<exists>res. identify_2_regimes ?ps None = Inr ([], Some res)"
    unfolding identify_2_regimes_present[OF r]
    by (simp add: rnd_def)
qed (simp_all add: round_half_even_def pow10_def Let_def)

theorem classification_on_rounded_values_witness:
  "\<exists>out. identify_2_regimes
        [''p[0->0]'' \<mapsto> Fin 0.9, ''p[1->0]'' \<mapsto> Fin 0.2, ''const[0]'' \<mapsto> Fin 0.00001,
         ''const[1]'' \<mapsto> Fin (- 0.03), ''sigma2[0]'' \<mapsto> Fin 0.01, ''sigma2[1]'' \<mapsto> Fin 0.05]
        (Some 4) = Inr (out, None)"
  using classification_on_rounded_values
    [of "[''p[0->0]'' \<mapsto> Fin 0.9, ''p[1->0]'' \<mapsto> Fin 0.2, ''const[0]'' \<mapsto> Fin 0.00001,
         ''const[1]'' \<mapsto> Fin (- 0.03), ''sigma2[0]'' \<mapsto> Fin 0.01, ''sigma2[1]'' \<mapsto> Fin 0.05]"
        "Fin 0.9" "Fin 0.2" "Fin 0.00001" "Fin (- 0.03)" "Fin 0.01" "Fin 0.05" 4]
  by (simp add: round_half_even_def pow10_def Let_def)

section \<open>Properties of the three-regime identifier\<close>



lemma py_insort_linorder: "py_insort (<) f x xs = insort_key f x xs"
  for f :: "'a \<Rightarrow> 'k::linorder"
  by (induction xs) auto

lemma py_sorted_linorder: "py_sorted (<) f xs = sort_key f xs"
  for f :: "'a \<Rightarrow> 'k::linorder"
  by (induction xs) (auto simp: py_sorted_def py_insort_linorder)








declare str_nat.simps [simp del]

lemma is_digit_digit_char: "d < 10 \<Longrightarrow> is_digit (digit_char d)"
  by (simp add: is_digit_def digit_char_def)

lemma digit_val_digit_char: "d < 10 \<Longrightarrow> digit_val (digit_char d) = d"
  by (simp add: digit_val_def digit_char_def)

lemma str_nat_digits: "list_all is_digit (str_nat n) \<and> str_nat n \<noteq> []"
proof (induction n rule: str_nat.induct)
  case (1 n)
  show ?case
  proof (cases "n < 10")
    case True
    then show ?thesis
      by (subst (1 2) str_nat.simps) (simp add: is_digit_digit_char)
  next
    case False
    with 1 show ?thesis
      by (subst (1 2) str_nat.simps) (simp add: is_digit_digit_char)
  qed
qed

lemma digits_acc_all:
  "list_all is_digit ds \<Longrightarrow>
     digits_acc acc ds = Some (foldl (\<lambda>a c. 10 * a + digit_val c) acc ds)"
  by (induction acc ds rule: digits_acc.induct) auto

lemma foldl_str_nat: "foldl (\<lambda>a c. 10 * a + digit_val c) 0 (str_nat n) = n"
proof (induction n rule: str_nat.induct)
  case (1 n)
  show ?case
  proof (cases "n < 10")
    case True
    then show ?thesis
      by (subst str_nat.simps) (simp add: digit_val_digit_char)
  next
    case False
    with 1 show ?thesis
      by (subst str_nat.simps) (simp add: digit_val_digit_char)
  qed
qed

lemma py_digits_str_nat: "py_digits (str_nat n) = Some n"
proof -
  obtain c cs where s: "str_nat n = c # cs"
    using str_nat_digits[of n] by (cases "str_nat n") auto
  with str_nat_digits[of n] have d: "is_digit c" "list_all is_digit cs" by auto
  have "foldl (\<lambda>a c. 10 * a + digit_val c) 0 (c # cs) = n"
    using foldl_str_nat[of n] s by simp
  then show ?thesis
    using d by (simp add: s py_digits_def digits_acc_all)
qed

lemma is_digit_plain:
  "is_digit c \<Longrightarrow> \<not> is_space c \<and> c \<noteq> CHR ''-'' \<and> c \<noteq> CHR ''+'' \<and> c \<noteq> CHR ''['' \<and> c \<noteq> CHR '']''"
  by (auto simp: is_digit_def is_space_def)

lemma py_strip_id:
  assumes "s \<noteq> []" and "\<not> is_space (hd s)" and "\<not> is_space (last s)"
  shows "py_strip s = s"
proof -
  have "dropWhile is_space s = s"
    using assms(1,2) by (cases s) auto
  moreover have "dropWhile is_space (rev s) = rev s"
    using assms(1,3) by (cases "rev s") (auto simp: last_rev[symmetric] simp del: last_rev)
  ultimately show ?thesis by (simp add: py_strip_def)
qed

lemma last_str_nat_digit: "is_digit (last (str_nat n))"
  using str_nat_digits[of n] by (simp add: list_all_iff)

lemma hd_str_nat_digit: "is_digit (hd (str_nat n))"
  using str_nat_digits[of n] by (cases "str_nat n") (auto)

lemma py_int_str: "py_int (py_str_int i) = Some i"
proof (cases "i < 0")
  case True
  have "py_strip (CHR ''-'' # str_nat (nat (- i))) = CHR ''-'' # str_nat (nat (- i))"
    using str_nat_digits[of "nat (- i)"] last_str_nat_digit[of "nat (- i)"]
    by (intro py_strip_id) (auto simp: is_space_def dest: is_digit_plain)
  with True show ?thesis
    by (simp add: py_int_def py_str_int_def py_digits_str_nat)
next
  case False
  obtain c cs where s: "str_nat (nat i) = c # cs"
    using str_nat_digits[of "nat i"] by (cases "str_nat (nat i)") auto
  have c: "is_digit c" using hd_str_nat_digit[of "nat i"] s by simp
  have "py_strip (str_nat (nat i)) = str_nat (nat i)"
    using str_nat_digits[of "nat i"] last_str_nat_digit[of "nat i"] hd_str_nat_digit[of "nat i"]
    by (intro py_strip_id) (auto dest: is_digit_plain)
  then have "py_int (str_nat (nat i)) = map_option int (py_digits (str_nat (nat i)))"
    using is_digit_plain[OF c] by (simp add: py_int_def s)
  with False show ?thesis
    by (simp add: py_str_int_def py_digits_str_nat)
qed

lemma py_split_none: "c \<notin> set s \<Longrightarrow> py_split c s = [s]"
  by (induction s) auto

lemma py_rstrip_id: "s \<noteq> [] \<Longrightarrow> last s \<noteq> c \<Longrightarrow> py_rstrip c s = s"
  by (cases "rev s") (auto simp: py_rstrip_def last_rev[symmetric] simp del: last_rev)

lemma py_rstrip_snoc: "py_rstrip c (s @ [c]) = py_rstrip c s"
  by (simp add: py_rstrip_def)

lemma py_str_int_chars:
  "py_str_int i \<noteq> [] \<and> is_digit (last (py_str_int i)) \<and> CHR ''['' \<notin> set (py_str_int i)"
  using str_nat_digits[of "nat i"] str_nat_digits[of "nat (- i)"]
    last_str_nat_digit[of "nat i"] last_str_nat_digit[of "nat (- i)"]
  by (auto simp: py_str_int_def list_all_iff dest: is_digit_plain)

lemma regime_index_param_label: "regime_index (param_label ''const'' i) = Inr i"
proof -
  let ?s = "py_str_int i"
  have n: "CHR ''['' \<notin> set (?s @ '']'')"
    using py_str_int_chars[of i] by simp
  have "py_split CHR ''['' (param_label ''const'' i) = [''const'', ?s @ '']'']"
    using py_split_none[OF n] by (simp add: param_label_def)
  moreover have "py_rstrip CHR '']'' (?s @ '']'') = ?s"
    using py_str_int_chars[of i] is_digit_plain[of "last ?s"]
    by (simp add: py_rstrip_snoc py_rstrip_id)
  ultimately show ?thesis
    by (simp add: regime_index_def py_int_str)
qed

lemma startswith_param_label: "startswith ''const['' (param_label ''const'' i)"
  by (simp add: startswith_def param_label_def)

lemma fless_total: "a \<noteq> NaN \<Longrightarrow> b \<noteq> NaN \<Longrightarrow> fless a b \<or> a = b \<or> fless b a"
  by (cases a; cases b) auto

lemma fless_trans: "fless a b \<Longrightarrow> fless b c \<Longrightarrow> fless a c"
  by (cases a; cases b; cases c) auto

lemma const_vals_filter:
  "const_vals est acc = const_vals (filter (\<lambda>(k, v). startswith ''const['' k) est) acc"
  by (induction est acc rule: const_vals.induct) (auto split: sum.splits)






lemma py_sorted_three:
  assumes "v1 \<noteq> NaN" and "v2 \<noteq> NaN" and "v3 \<noteq> NaN" and "distinct [i1, i2, i3]"
  shows "\<exists>a b c va vb vc. py_sorted fless snd [(i1, v1), (i2, v2), (i3, v3)] = [(a, va), (b, vb), (c, vc)]
     \<and> distinct [a, b, c]
     \<and> set [(a, va), (b, vb), (c, vc)] = set [(i1, v1), (i2, v2), (i3, v3)]
     \<and> (fless va vb \<or> va = vb) \<and> (fless vb vc \<or> vb = vc)"
  using fless_total[OF assms(1,2)] fless_total[OF assms(2,3)] fless_total[OF assms(1,3)] assms(4)
  by (auto simp: py_sorted_def dest: fless_asym fless_trans)

lemma py_sorted_three_perm:
  assumes "distinct [i1, i2, i3]"
  shows "\<exists>a b c va vb vc. py_sorted fless snd [(i1, v1), (i2, v2), (i3, v3)] = [(a, va), (b, vb), (c, vc)]
     \<and> distinct [a, b, c]
     \<and> set [(a, va), (b, vb), (c, vc)] = set [(i1, v1), (i2, v2), (i3, v3)]
     \<and> (v1 \<noteq> NaN \<and> v2 \<noteq> NaN \<and> v3 \<noteq> NaN \<longrightarrow>
          (fless va vb \<or> va = vb) \<and> (fless vb vc \<or> vb = vc))"
proof (cases "v1 \<noteq> NaN \<and> v2 \<noteq> NaN \<and> v3 \<noteq> NaN")
  case True
  then show ?thesis
    using py_sorted_three[of v1 v2 v3 i1 i2 i3] assms by blast
next
  case False
  then show ?thesis
    using assms by (auto simp: py_sorted_def)
qed

lemma const_vals_three:
  assumes "distinct [i1, i2, i3]"
  shows "const_vals [(param_label ''const'' i1, v1), (param_label ''const'' i2, v2),
                     (param_label ''const'' i3, v3)] []
         = Inr [(i1, v1), (i2, v2), (i3, v3)]"
  using assms by (simp add: startswith_param_label regime_index_param_label)

text \<open>
  Claim C2. For a series whose labels of the form \<^verbatim>\<open>const[i]\<close> are those of exactly three
  distinct regime indices, the function returns a mapping of \<^verbatim>\<open>Bull\<close>, \<^verbatim>\<open>Bear\<close>, \<^verbatim>\<open>Chop\<close>
  to a permutation of the three indices; the constant of \<^verbatim>\<open>Bear\<close> is the lowest, that of
  \<^verbatim>\<open>Chop\<close> the middle one and that of \<^verbatim>\<open>Bull\<close> the highest, which has a meaning when no
  constant is \<open>NaN\<close>. The witness is the example of the specification:
  \<^verbatim>\<open>const[0] = -0.01\<close>, \<^verbatim>\<open>const[1] = 0.03\<close>, \<^verbatim>\<open>const[2] = 0.001\<close> gives
  \<^verbatim>\<open>{"Bull": 1, "Bear": 0, "Chop": 2}\<close>.
\<close>

theorem identify_3_regimes_ranks:
  assumes "filter (\<lambda>(k, v). startswith ''const['' k) estimates =
      [(param_label ''const'' i1, v1), (param_label ''const'' i2, v2),
       (param_label ''const'' i3, v3)]"
    and "distinct [i1, i2, i3]"
  shows "\<exists>bear chop bull v_bear v_chop v_bull.
      identify_3_regimes estimates = Inr [(''Bull'', bull), (''Bear'', bear), (''Chop'', chop)]
      \<and> distinct [bear, chop, bull]
      \<and> set [(bear, v_bear), (chop, v_chop), (bull, v_bull)] = set [(i1, v1), (i2, v2), (i3, v3)]
      \<and> (v1 \<noteq> NaN \<and> v2 \<noteq> NaN \<and> v3 \<noteq> NaN \<longrightarrow>
           (fless v_bear v_chop \<or> v_bear = v_chop) \<and> (fless v_chop v_bull \<or> v_chop = v_bull))"
proof -
  have "const_vals estimates [] =
      const_vals (filter (\<lambda>(k, v). startswith ''const['' k) estimates) []"
    by (rule const_vals_filter)
  also have "\<dots> = Inr [(i1, v1), (i2, v2), (i3, v3)]"
    unfolding assms(1) using assms(2) by (rule const_vals_three)
  finally have cv: "const_vals estimates [] = Inr [(i1, v1), (i2, v2), (i3, v3)]" .
  obtain a b c va vb vc where
    s: "py_sorted fless snd [(i1, v1), (i2, v2), (i3, v3)] = [(a, va), (b, vb), (c, vc)]"
    and d: "distinct [a, b, c]"
    and p: "set [(a, va), (b, vb), (c, vc)] = set [(i1, v1), (i2, v2), (i3, v3)]"
    and o: "v1 \<noteq> NaN \<and> v2 \<noteq> NaN \<and> v3 \<noteq> NaN \<longrightarrow>
          (fless va vb \<or> va = vb) \<and> (fless vb vc \<or> vb = vc)"
    using py_sorted_three_perm[OF assms(2), of v1 v2 v3] by blast
  have r: "identify_3_regimes estimates = Inr [(''Bull'', c), (''Bear'', a), (''Chop'', b)]"
    by (simp add: identify_3_regimes_def bind_err_def cv s)
  from r d p o show ?thesis by blast
qed

theorem identify_3_regimes_ranks_witness:
  "identify_3_regimes [(''const[0]'', Fin (- 0.01)), (''const[1]'', Fin 0.03),
      (''const[2]'', Fin 0.001)] = Inr [(''Bull'', 1), (''Bear'', 0), (''Chop'', 2)]"
proof -
  have l: "param_label ''const'' 0 = ''const[0]''" "param_label ''const'' 1 = ''const[1]''"
    "param_label ''const'' 2 = ''const[2]''"
    by code_simp+
  have f: "filter (\<lambda>(k, v). startswith ''const['' k)
        [(''const[0]'', Fin (- 0.01)), (''const[1]'', Fin 0.03), (''const[2]'', Fin 0.001)] =
      [(param_label ''const'' 0, Fin (- 0.01)), (param_label ''const'' 1, Fin 0.03),
       (param_label ''const'' 2, Fin 0.001)]"
    unfolding l by (simp add: startswith_def)
  obtain bear chop bull v_bear v_chop v_bull where
    r: "identify_3_regimes [(''const[0]'', Fin (- 0.01)), (''const[1]'', Fin 0.03),
          (''const[2]'', Fin 0.001)] = Inr [(''Bull'', bull), (''Bear'', bear), (''Chop'', chop)]"
    and d: "distinct [bear, chop, bull]"
    and p: "set [(bear, v_bear), (chop, v_chop), (bull, v_bull)]
        = set [(0, Fin (- 0.01)), (1, Fin 0.03), (2, Fin 0.001)]"
    and o: "fless v_bear v_chop \<or> v_bear = v_chop" "fless v_chop v_bull \<or> v_chop = v_bull"
    using identify_3_regimes_ranks[OF f] by force
  have m: "x \<in> set [(0, Fin (- 0.01)), (1, Fin 0.03), (2, Fin 0.001)]"
    if "x \<in> set [(bear, v_bear), (chop, v_chop), (bull, v_bull)]" for x
    using that by (simp only: p)
  have "(bear, v_bear) \<in> set [(0, Fin (- 0.01)), (1, Fin 0.03), (2, Fin 0.001)]"
    "(chop, v_chop) \<in> set [(0, Fin (- 0.01)), (1, Fin 0.03), (2, Fin 0.001)]"
    "(bull, v_bull) \<in> set [(0, Fin (- 0.01)), (1, Fin 0.03), (2, Fin 0.001)]"
    by (rule m, simp)+
  with d o have "bear = 0 \<and> chop = 2 \<and> bull = 1"
    by auto
  with r show ?thesis by simp
qed

section \<open>Properties of the summary builder\<close>

lemma list_index_label:
  "l \<in> set label_order \<Longrightarrow> list_index label_order l = Inr (label_pos l)"
  by (auto simp: label_order_def label_pos_def)

lemma with_keys_total:
  "\<forall>x \<in> set xs. f x = Inr (g x) \<Longrightarrow> with_keys f xs = Inr (map (\<lambda>x. (g x, x)) xs)"
  by (induction xs) auto

lemma insort_key_tagged:
  "insort_key fst (g x, x) (map (\<lambda>y. (g y, y)) ys) = map (\<lambda>y. (g y, y)) (insort_key g x ys)"
  by (induction ys) auto

lemma sort_key_tagged:
  "sort_key fst (map (\<lambda>y. (g y, y)) xs) = map (\<lambda>y. (g y, y)) (sort_key g xs)"
  by (induction xs) (auto simp: insort_key_tagged)

lemma py_sorted_key_labels:
  assumes "set (map fst lm) \<subseteq> set label_order"
  shows "py_sorted_key (<) (\<lambda>x. list_index label_order (fst x)) lm
         = Inr (sort_key (\<lambda>x. label_pos (fst x)) lm)"
proof -
  have "\<forall>x \<in> set lm. list_index label_order (fst x) = Inr (label_pos (fst x))"
    using assms by (auto intro: list_index_label)
  then have "with_keys (\<lambda>x. list_index label_order (fst x)) lm
      = Inr (map (\<lambda>x. (label_pos (fst x), x)) lm)"
    by (rule with_keys_total)
  then show ?thesis
    by (simp add: py_sorted_key_def bind_err_def py_sorted_linorder sort_key_tagged comp_def)
qed

lemma label_pos_values:
  "label_pos ''Bull'' = 0" "label_pos ''Bear'' = 1" "label_pos ''Chop'' = 2"
  by (simp_all add: label_pos_def)

lemma sort_labels:
  fixes lm :: "(string \<times> int) list"
  assumes "distinct (map fst lm)"
    and "set lm = {(''Bull'', i_bull), (''Bear'', i_bear), (''Chop'', i_chop)}"
  shows "sort_key (\<lambda>x. label_pos (fst x)) lm
         = [(''Bull'', i_bull), (''Bear'', i_bear), (''Chop'', i_chop)]"
proof -
  let ?f = "\<lambda>x::string \<times> int. label_pos (fst x)"
  let ?ys = "sort_key ?f lm"
  have inj: "inj_on ?f (set lm)"
    unfolding assms(2) by (simp add: label_pos_values)
  have dl: "distinct lm" using assms(1) by (rule distinct_map[THEN iffD1, THEN conjunct1])
  have "distinct (map ?f ?ys)"
    using inj dl by (simp add: distinct_map)
  moreover have "sorted (map ?f ?ys)" by (rule sorted_sort_key)
  moreover have "set (map ?f ?ys) = set [0, 1, 2]"
    by (auto simp: assms(2) label_pos_values)
  moreover have "sorted [0, 1, 2::nat]" "distinct [0, 1, 2::nat]" by simp_all
  ultimately have m: "map ?f ?ys = [0, 1, 2]"
    by (intro sorted_distinct_set_unique) simp_all
  then obtain a b c where y: "?ys = [a, b, c]" and
    f: "?f a = 0" "?f b = 1" "?f c = 2"
    by (auto simp: map_eq_Cons_conv)
  have "set [a, b, c] = set lm"
    using set_sort[of ?f lm] by (simp only: y)
  then have "a \<in> set lm" "b \<in> set lm" "c \<in> set lm" by auto
  with f have "a = (''Bull'', i_bull)" "b = (''Bear'', i_bear)" "c = (''Chop'', i_chop)"
    unfolding assms(2) by (auto simp: label_pos_values)
  with y show ?thesis by simp
qed

lemma make_row_labels: "map fst (make_row e t p l r kp) = header"
  by (cases kp) (simp add: make_row_def Let_def header_def)

lemma first_seen_header:
  assumes "rows \<noteq> []" and "\<forall>r \<in> set rows. map fst r = hdr" and "distinct hdr"
  shows "rev (remdups (rev (concat (map (map fst) rows)))) = hdr"
proof -
  obtain r0 rs where rows: "rows = r0 # rs" using assms(1) by (cases rows) auto
  let ?rest = "concat (map (map fst) rs)"
  have sub: "set ?rest \<subseteq> set hdr"
    using assms(2) rows by auto
  have "remdups (rev ?rest @ rev hdr) = remdups (rev hdr)"
    by (rule remdups_append) (use sub in simp)
  also have "\<dots> = rev hdr"
    using assms(3) by (simp add: distinct_remdups_id)
  finally have "remdups (rev ?rest @ rev hdr) = rev hdr" .
  moreover have "concat (map (map fst) rows) = hdr @ ?rest"
    using assms(2) rows by simp
  ultimately show ?thesis by simp
qed

lemma cell_at_make_row:
  "cell_at (make_row e t p l r (key, pretty)) ''Regime'' = Str l"
  "cell_at (make_row e t p l r (key, pretty)) ''Parameter'' = Str pretty"
  "cell_at (make_row e t p l r (key, pretty)) ''Estimate'' =
     Num (let est = series_get e (param_label key r)
          in if key = ''sigma2'' \<and> \<not> isna est then np_sqrt est else est)"
  "cell_at (make_row e t p l r (key, pretty)) ''t-statistic'' = Num (series_get t (param_label key r))"
  "cell_at (make_row e t p l r (key, pretty)) ''p-value'' = Num (series_get p (param_label key r))"
  by (simp_all add: cell_at_def make_row_def Let_def)

lemma frame_set_index_rows:
  assumes "rows \<noteq> []" and "\<forall>r \<in> set rows. map fst r = header"
  shows "frame_set_index rows [''Regime'', ''Parameter''] =
     Inr \<lparr>df_index = map (\<lambda>r. [cell_at r ''Regime'', cell_at r ''Parameter'']) rows,
          df_columns = [''Estimate'', ''t-statistic'', ''p-value''],
          df_cells = map (\<lambda>r. [cell_at r ''Estimate'', cell_at r ''t-statistic'',
                                   cell_at r ''p-value'']) rows\<rparr>"
proof -
  have "distinct header" by (simp add: header_def)
  then have c: "rev (remdups (rev (concat (map (map fst) rows)))) = header"
    using assms by (intro first_seen_header)
  show ?thesis
    unfolding frame_set_index_def c Let_def
    by (simp add: header_def)
qed

lemma estimate_cell:
  "(let est = series_get e k in if key = ''sigma2'' \<and> \<not> isna est then np_sqrt est else est)
   = (if key = ''sigma2'' then np_sqrt (series_get e k) else series_get e k)"
  by (simp add: Let_def isna_def)

lemma build_table_total:
  assumes "distinct (map fst lm)"
    and "set lm = {(''Bull'', i_bull), (''Bear'', i_bear), (''Chop'', i_chop)}"
  shows "build_3_regimes_summary_table e t p lm =
    Inr \<lparr>df_index =
           [[Str ''Bull'', Str ''Constant''], [Str ''Bull'', Str ''AR(1)''],
            [Str ''Bull'', Str ''AR(2)''], [Str ''Bull'', Str ''Std. Deviation''],
            [Str ''Bear'', Str ''Constant''], [Str ''Bear'', Str ''AR(1)''],
            [Str ''Bear'', Str ''AR(2)''], [Str ''Bear'', Str ''Std. Deviation''],
            [Str ''Chop'', Str ''Constant''], [Str ''Chop'', Str ''AR(1)''],
            [Str ''Chop'', Str ''AR(2)''], [Str ''Chop'', Str ''Std. Deviation'']],
         df_columns = [''Estimate'', ''t-statistic'', ''p-value''],
         df_cells =
           [summary_cells e t p ''const'' i_bull, summary_cells e t p ''ar.L1'' i_bull,
            summary_cells e t p ''ar.L2'' i_bull, summary_cells e t p ''sigma2'' i_bull,
            summary_cells e t p ''const'' i_bear, summary_cells e t p ''ar.L1'' i_bear,
            summary_cells e t p ''ar.L2'' i_bear, summary_cells e t p ''sigma2'' i_bear,
            summary_cells e t p ''const'' i_chop, summary_cells e t p ''ar.L1'' i_chop,
            summary_cells e t p ''ar.L2'' i_chop, summary_cells e t p ''sigma2'' i_chop]\<rparr>"
proof -
  have sub: "set (map fst lm) \<subseteq> set label_order"
    by (simp add: assms(2) label_order_def)
  let ?rows = "concat (map (\<lambda>(regime_label, reg). map (make_row e t p regime_label reg) param_keys)
      [(''Bull'', i_bull), (''Bear'', i_bear), (''Chop'', i_chop)])"
  have b: "build_3_regimes_summary_table e t p lm = frame_set_index ?rows [''Regime'', ''Parameter'']"
    by (simp only: build_3_regimes_summary_table_def py_sorted_key_labels[OF sub]
        sort_labels[OF assms] bind_err_def sum.case Let_def)
  have ne: "?rows \<noteq> []" by (simp add: param_keys_def)
  have h: "\<forall>r \<in> set ?rows. map fst r = header"
    by (auto simp: make_row_labels)
  have rows: "?rows =
    [make_row e t p ''Bull'' i_bull (''const'', ''Constant''),
     make_row e t p ''Bull'' i_bull (''ar.L1'', ''AR(1)''),
     make_row e t p ''Bull'' i_bull (''ar.L2'', ''AR(2)''),
     make_row e t p ''Bull'' i_bull (''sigma2'', ''Std. Deviation''),
     make_row e t p ''Bear'' i_bear (''const'', ''Constant''),
     make_row e t p ''Bear'' i_bear (''ar.L1'', ''AR(1)''),
     make_row e t p ''Bear'' i_bear (''ar.L2'', ''AR(2)''),
     make_row e t p ''Bear'' i_bear (''sigma2'', ''Std. Deviation''),
     make_row e t p ''Chop'' i_chop (''const'', ''Constant''),
     make_row e t p ''Chop'' i_chop (''ar.L1'', ''AR(1)''),
     make_row e t p ''Chop'' i_chop (''ar.L2'', ''AR(2)''),
     make_row e t p ''Chop'' i_chop (''sigma2'', ''Std. Deviation'')]"
    by (simp add: param_keys_def)
  show ?thesis
    unfolding b frame_set_index_rows[OF ne h]
    unfolding rows
    by (simp only: list.map cell_at_make_row estimate_cell summary_cells_def)
qed

lemma sqrt_example: "np_sqrt (Fin 0.04) = Fin 0.2"
proof -
  have "sqrt (0.04::real) = 0.2"
    by (rule real_sqrt_unique) (simp_all add: power2_eq_square)
  then show ?thesis by simp
qed

lemma param_label_sigma2_1: "param_label ''sigma2'' 1 = ''sigma2[1]''"
  by code_simp

text \<open>
  Claim C8. For a label assignment whose keys are exactly \<^verbatim>\<open>Bull\<close>, \<^verbatim>\<open>Bear\<close>, \<^verbatim>\<open>Chop\<close>, in
  whatever order its entries come, the table has its rows in the order Bull, Bear, Chop,
  each label with the parameters Constant, AR(1), AR(2), Std. Deviation in that order,
  and the columns Estimate, t-statistic, p-value.
\<close>

theorem summary_table_layout:
  assumes "distinct (map fst label_map)"
    and "set label_map = {(''Bull'', i_bull), (''Bear'', i_bear), (''Chop'', i_chop)}"
  shows "\<exists>tbl. build_3_regimes_summary_table estimates tvalues pvalues label_map = Inr tbl
    \<and> df_index tbl =
         [[Str ''Bull'', Str ''Constant''], [Str ''Bull'', Str ''AR(1)''],
          [Str ''Bull'', Str ''AR(2)''], [Str ''Bull'', Str ''Std. Deviation''],
          [Str ''Bear'', Str ''Constant''], [Str ''Bear'', Str ''AR(1)''],
          [Str ''Bear'', Str ''AR(2)''], [Str ''Bear'', Str ''Std. Deviation''],
          [Str ''Chop'', Str ''Constant''], [Str ''Chop'', Str ''AR(1)''],
          [Str ''Chop'', Str ''AR(2)''], [Str ''Chop'', Str ''Std. Deviation'']]
    \<and> df_columns tbl = [''Estimate'', ''t-statistic'', ''p-value'']
    \<and> length (df_cells tbl) = 12 \<and> list_all (\<lambda>cs. length cs = 3) (df_cells tbl)"
  unfolding build_table_total[OF assms]
  by (simp add: summary_cells_def)

theorem summary_table_layout_witness:
  "\<exists>tbl. build_3_regimes_summary_table [(''const[0]'', Fin 0.02)] [] []
       [(''Chop'', 2), (''Bull'', 0), (''Bear'', 1)] = Inr tbl
    \<and> df_index tbl =
         [[Str ''Bull'', Str ''Constant''], [Str ''Bull'', Str ''AR(1)''],
          [Str ''Bull'', Str ''AR(2)''], [Str ''Bull'', Str ''Std. Deviation''],
          [Str ''Bear'', Str ''Constant''], [Str ''Bear'', Str ''AR(1)''],
          [Str ''Bear'', Str ''AR(2)''], [Str ''Bear'', Str ''Std. Deviation''],
          [Str ''Chop'', Str ''Constant''], [Str ''Chop'', Str ''AR(1)''],
          [Str ''Chop'', Str ''AR(2)''], [Str ''Chop'', Str ''Std. Deviation'']]
    \<and> df_columns tbl = [''Estimate'', ''t-statistic'', ''p-value'']"
proof -
  have d: "distinct (map fst [(''Chop'', 2::int), (''Bull'', 0), (''Bear'', 1)])" by simp
  have s: "set [(''Chop'', 2::int), (''Bull'', 0), (''Bear'', 1)]
      = {(''Bull'', 0), (''Bear'', 1), (''Chop'', 2)}" by auto
  show ?thesis
    using summary_table_layout[OF d s, of "[(''const[0]'', Fin 0.02)]" "[]" "[]"] by blast
qed

text \<open>
  Claim C4. For every three series and every label assignment over \<^verbatim>\<open>Bull\<close>, \<^verbatim>\<open>Bear\<close>,
  \<^verbatim>\<open>Chop\<close>, the table is built without an error and its row for a label and a parameter
  holds the three lookups of \<^verbatim>\<open>prefix[regime]\<close> (\<open>NaN\<close> where the series has no such
  entry), the estimate of the \<^verbatim>\<open>sigma2\<close> row being the square root of the looked-up
  variance and the t-statistic and p-value passed through; the table has no other row.
  With \<^verbatim>\<open>sigma2[1] = 0.04\<close> the Std. Deviation row of whichever label maps to regime 1 has
  the estimate \<open>0.2\<close>.
\<close>

theorem summary_table_rows:
  assumes "distinct (map fst label_map)"
    and "set label_map = {(''Bull'', i_bull), (''Bear'', i_bear), (''Chop'', i_chop)}"
  shows "\<exists>tbl. build_3_regimes_summary_table estimates tvalues pvalues label_map = Inr tbl
    \<and> length (df_index tbl) = length label_map * length param_keys
    \<and> (\<forall>l r key pretty. (l, r) \<in> set label_map \<and> (key, pretty) \<in> set param_keys \<longrightarrow>
          frame_row tbl [Str l, Str pretty] = Some (summary_cells estimates tvalues pvalues key r))
    \<and> (\<forall>l. (l, 1) \<in> set label_map \<and> map_of estimates ''sigma2[1]'' = Some (Fin 0.04) \<longrightarrow>
          (\<exists>tv pv. frame_row tbl [Str l, Str ''Std. Deviation''] = Some [Num (Fin 0.2), tv, pv]))"
proof -
  define tbl where "tbl = \<lparr>df_index =
           [[Str ''Bull'', Str ''Constant''], [Str ''Bull'', Str ''AR(1)''],
            [Str ''Bull'', Str ''AR(2)''], [Str ''Bull'', Str ''Std. Deviation''],
            [Str ''Bear'', Str ''Constant''], [Str ''Bear'', Str ''AR(1)''],
            [Str ''Bear'', Str ''AR(2)''], [Str ''Bear'', Str ''Std. Deviation''],
            [Str ''Chop'', Str ''Constant''], [Str ''Chop'', Str ''AR(1)''],
            [Str ''Chop'', Str ''AR(2)''], [Str ''Chop'', Str ''Std. Deviation'']],
         df_columns = [''Estimate'', ''t-statistic'', ''p-value''],
         df_cells =
           [summary_cells estimates tvalues pvalues ''const'' i_bull,
            summary_cells estimates tvalues pvalues ''ar.L1'' i_bull,
            summary_cells estimates tvalues pvalues ''ar.L2'' i_bull,
            summary_cells estimates tvalues pvalues ''sigma2'' i_bull,
            summary_cells estimates tvalues pvalues ''const'' i_bear,
            summary_cells estimates tvalues pvalues ''ar.L1'' i_bear,
            summary_cells estimates tvalues pvalues ''ar.L2'' i_bear,
            summary_cells estimates tvalues pvalues ''sigma2'' i_bear,
            summary_cells estimates tvalues pvalues ''const'' i_chop,
            summary_cells estimates tvalues pvalues ''ar.L1'' i_chop,
            summary_cells estimates tvalues pvalues ''ar.L2'' i_chop,
            summary_cells estimates tvalues pvalues ''sigma2'' i_chop]\<rparr>"
  have b: "build_3_regimes_summary_table estimates tvalues pvalues label_map = Inr tbl"
    unfolding tbl_def by (rule build_table_total[OF assms])
  have "distinct label_map"
    using assms(1) by (rule distinct_map[THEN iffD1, THEN conjunct1])
  then have "length label_map = card (set label_map)"
    by (simp add: distinct_card)
  also have "\<dots> = 3" by (simp add: assms(2))
  finally have n: "length (df_index tbl) = length label_map * length param_keys"
    by (simp add: param_keys_def tbl_def)
  have look:
    "frame_row tbl [Str ''Bull'', Str ''Constant''] = Some (summary_cells estimates tvalues pvalues ''const'' i_bull)"
    "frame_row tbl [Str ''Bull'', Str ''AR(1)''] = Some (summary_cells estimates tvalues pvalues ''ar.L1'' i_bull)"
    "frame_row tbl [Str ''Bull'', Str ''AR(2)''] = Some (summary_cells estimates tvalues pvalues ''ar.L2'' i_bull)"
    "frame_row tbl [Str ''Bull'', Str ''Std. Deviation''] = Some (summary_cells estimates tvalues pvalues ''sigma2'' i_bull)"
    "frame_row tbl [Str ''Bear'', Str ''Constant''] = Some (summary_cells estimates tvalues pvalues ''const'' i_bear)"
    "frame_row tbl [Str ''Bear'', Str ''AR(1)''] = Some (summary_cells estimates tvalues pvalues ''ar.L1'' i_bear)"
    "frame_row tbl [Str ''Bear'', Str ''AR(2)''] = Some (summary_cells estimates tvalues pvalues ''ar.L2'' i_bear)"
    "frame_row tbl [Str ''Bear'', Str ''Std. Deviation''] = Some (summary_cells estimates tvalues pvalues ''sigma2'' i_bear)"
    "frame_row tbl [Str ''Chop'', Str ''Constant''] = Some (summary_cells estimates tvalues pvalues ''const'' i_chop)"
    "frame_row tbl [Str ''Chop'', Str ''AR(1)''] = Some (summary_cells estimates tvalues pvalues ''ar.L1'' i_chop)"
    "frame_row tbl [Str ''Chop'', Str ''AR(2)''] = Some (summary_cells estimates tvalues pvalues ''ar.L2'' i_chop)"
    "frame_row tbl [Str ''Chop'', Str ''Std. Deviation''] = Some (summary_cells estimates tvalues pvalues ''sigma2'' i_chop)"
    by (simp_all add: tbl_def frame_row_def)
  have rows: "frame_row tbl [Str l, Str pretty] = Some (summary_cells estimates tvalues pvalues key r)"
    if "(l, r) \<in> set label_map" and "(key, pretty) \<in> set param_keys" for l r key pretty
  proof -
    from that(1) have c1: "l = ''Bull'' \<and> r = i_bull \<or> l = ''Bear'' \<and> r = i_bear
        \<or> l = ''Chop'' \<and> r = i_chop"
      unfolding assms(2) by blast
    from that(2) have c2: "key = ''const'' \<and> pretty = ''Constant''
        \<or> key = ''ar.L1'' \<and> pretty = ''AR(1)'' \<or> key = ''ar.L2'' \<and> pretty = ''AR(2)''
        \<or> key = ''sigma2'' \<and> pretty = ''Std. Deviation''"
      unfolding param_keys_def by auto
    from c1 c2 show ?thesis
      by (elim disjE conjE) (simp_all only: look)
  qed
  have ex: "\<exists>tv pv. frame_row tbl [Str l, Str ''Std. Deviation''] = Some [Num (Fin 0.2), tv, pv]"
    if "(l, 1) \<in> set label_map" and "map_of estimates ''sigma2[1]'' = Some (Fin 0.04)" for l
  proof -
    have "frame_row tbl [Str l, Str ''Std. Deviation'']
        = Some (summary_cells estimates tvalues pvalues ''sigma2'' 1)"
      using that(1) by (rule rows) (simp add: param_keys_def)
    moreover have "series_get estimates ''sigma2[1]'' = Fin 0.04"
      using that(2) by (simp only: series_get_def option.case)
    ultimately have "frame_row tbl [Str l, Str ''Std. Deviation'']
        = Some [Num (Fin 0.2), Num (series_get tvalues ''sigma2[1]''),
                Num (series_get pvalues ''sigma2[1]'')]"
      by (simp only: summary_cells_def param_label_sigma2_1 sqrt_example if_True refl)
    then show ?thesis by blast
  qed
  from b n rows ex show ?thesis by blast
qed

theorem summary_table_rows_witness:
  "\<exists>tbl. build_3_regimes_summary_table [(''sigma2[1]'', Fin 0.04)] [] []
        [(''Bear'', 1), (''Bull'', 0), (''Chop'', 2)] = Inr tbl
     \<and> frame_row tbl [Str ''Bear'', Str ''Std. Deviation''] = Some [Num (Fin 0.2), Num NaN, Num NaN]
     \<and> frame_row tbl [Str ''Bull'', Str ''Constant''] = Some [Num NaN, Num NaN, Num NaN]"
proof -
  let ?e = "[(''sigma2[1]'', Fin 0.04)]"
  let ?lm = "[(''Bear'', 1::int), (''Bull'', 0), (''Chop'', 2)]"
  have d: "distinct (map fst ?lm)" by simp
  have s: "set ?lm = {(''Bull'', 0), (''Bear'', 1), (''Chop'', 2)}" by auto
  obtain tbl where b: "build_3_regimes_summary_table ?e [] [] ?lm = Inr tbl"
    and rows: "\<forall>l r key pretty. (l, r) \<in> set ?lm \<and> (key, pretty) \<in> set param_keys \<longrightarrow>
          frame_row tbl [Str l, Str pretty] = Some (summary_cells ?e [] [] key r)"
    using summary_table_rows[OF d s, of ?e "[]" "[]"] by blast
  have "frame_row tbl [Str ''Bear'', Str ''Std. Deviation''] = Some (summary_cells ?e [] [] ''sigma2'' 1)"
    using rows by (simp add: param_keys_def)
  moreover have "summary_cells ?e [] [] ''sigma2'' 1 = [Num (Fin 0.2), Num NaN, Num NaN]"
    by (simp only: summary_cells_def param_label_sigma2_1 series_get_def map_of.simps
        fst_conv snd_conv fun_upd_same option.case sqrt_example if_True refl)
  moreover have "frame_row tbl [Str ''Bull'', Str ''Constant''] = Some (summary_cells ?e [] [] ''const'' 0)"
    using rows by (simp add: param_keys_def)
  moreover have "param_label ''const'' 0 = ''const[0]''" by code_simp
  then have "summary_cells ?e [] [] ''const'' 0 = [Num NaN, Num NaN, Num NaN]"
    by (simp add: summary_cells_def series_get_def)
  ultimately show ?thesis using b by simp
qed

text \<open>
  Claim C6. For every input the wrapper returns what the two steps return when run one
  after the other: the label assignment of \<open>identify_3_regimes\<close> on the estimates, then
  \<open>build_3_regimes_summary_table\<close> with that assignment (an error of the first step being
  the error of the whole).
\<close>

theorem summary_wrapper_refines:
  "build_3_regimes_summary estimates tvalues pvalues
     = summary_from_assignment estimates tvalues pvalues"
  by (simp add: build_3_regimes_summary_def summary_from_assignment_def bind_err_def)

theorem summary_wrapper_refines_witness:
  "\<exists>tbl. build_3_regimes_summary
        [(''const[0]'', Fin (- 0.01)), (''const[1]'', Fin 0.03), (''const[2]'', Fin 0.001),
         (''sigma2[1]'', Fin 0.04)] [] [] = Inr tbl
     \<and> summary_from_assignment
        [(''const[0]'', Fin (- 0.01)), (''const[1]'', Fin 0.03), (''const[2]'', Fin 0.001),
         (''sigma2[1]'', Fin 0.04)] [] [] = Inr tbl
     \<and> df_columns tbl = [''Estimate'', ''t-statistic'', ''p-value'']
     \<and> length (df_index tbl) = 12"
proof -
  let ?e = "[(''const[0]'', Fin (- 0.01)), (''const[1]'', Fin 0.03), (''const[2]'', Fin 0.001),
         (''sigma2[1]'', Fin 0.04)]"
  let ?lm = "[(''Bull'', 1::int), (''Bear'', 0), (''Chop'', 2)]"
  have i: "identify_3_regimes ?e = Inr ?lm"
    by (simp add: identify_3_regimes_def bind_err_def startswith_def regime_index_def
      py_rstrip_def py_int_def py_strip_def is_space_def py_digits_def is_digit_def
      digit_val_def py_sorted_def)
  have d: "distinct (map fst ?lm)" by simp
  have s: "set ?lm = {(''Bull'', 1), (''Bear'', 0), (''Chop'', 2)}" by simp
  obtain tbl where t: "build_3_regimes_summary_table ?e [] [] ?lm = Inr tbl"
    and c: "df_columns tbl = [''Estimate'', ''t-statistic'', ''p-value'']"
    and n: "length (df_index tbl) = 12"
    unfolding build_table_total[OF d s] by simp
  have "summary_from_assignment ?e [] [] = Inr tbl"
    by (simp only: summary_from_assignment_def i t sum.case)
  then show ?thesis
    using summary_wrapper_refines[of ?e "[]" "[]"] c n by simp
qed

section \<open>Properties of the classification detector\<close>

lemma map2_same_source: "map2 f (map g xs) (map h xs) = map (\<lambda>x. f (g x) (h x)) xs"
  by (induction xs) auto

lemma replicate_as_map: "replicate (length xs) y = map (\<lambda>_. y) xs"
  by (induction xs) auto

lemma column_codes:
  assumes "length col = length gt"
  shows "map2 (\<lambda>x m. if m then Fin 4 else x)
          (map2 (\<lambda>x m. if m then Fin 3 else x)
            (map2 (\<lambda>x m. if m then Fin 2 else x)
              (map2 (\<lambda>x m. if m then Fin 1 else x)
                (map (\<lambda>_. NaN) col)
                (map2 (\<and>) (map (\<lambda>x. feq x (Fin 1)) col) (map (\<lambda>x. feq x (Fin 1)) gt)))
              (map2 (\<and>) (map (\<lambda>x. feq x (Fin (- 1))) col) (map (\<lambda>x. feq x (Fin (- 1))) gt)))
            (map2 (\<and>) (map (\<lambda>x. feq x (Fin 1)) col) (map (\<lambda>x. feq x (Fin (- 1))) gt)))
          (map2 (\<and>) (map (\<lambda>x. feq x (Fin (- 1))) col) (map (\<lambda>x. feq x (Fin 1)) gt))
       = map2 cell_code col gt"
  using assms
  by (induction col gt rule: list_induct2) (auto simp: cell_code_def feq_def)

lemma detect_closed_form:
  assumes "target_df \<noteq> []" and "\<forall>col \<in> set target_df. length col = length ground_truth"
  shows "detect_tsm_classifications target_df ground_truth
         = Inr (map (\<lambda>col. map2 cell_code col ground_truth) target_df)"
proof -
  have c: "pd_concat (replicate (length target_df) ground_truth)
      = Inr (map (\<lambda>_. ground_truth) target_df)"
    using assms(1) by (simp add: pd_concat_def replicate_as_map)
  have "detect_tsm_classifications target_df ground_truth =
    Inr (map (\<lambda>col.
      map2 (\<lambda>x m. if m then Fin 4 else x)
          (map2 (\<lambda>x m. if m then Fin 3 else x)
            (map2 (\<lambda>x m. if m then Fin 2 else x)
              (map2 (\<lambda>x m. if m then Fin 1 else x)
                (map (\<lambda>_. NaN) col)
                (map2 (\<and>) (map (\<lambda>x. feq x (Fin 1)) col) (map (\<lambda>x. feq x (Fin 1)) ground_truth)))
              (map2 (\<and>) (map (\<lambda>x. feq x (Fin (- 1))) col) (map (\<lambda>x. feq x (Fin (- 1))) ground_truth)))
            (map2 (\<and>) (map (\<lambda>x. feq x (Fin 1)) col) (map (\<lambda>x. feq x (Fin (- 1))) ground_truth)))
          (map2 (\<and>) (map (\<lambda>x. feq x (Fin (- 1))) col) (map (\<lambda>x. feq x (Fin 1)) ground_truth)))
      target_df)"
    unfolding detect_tsm_classifications_def c bind_err_def sum.case Let_def
      empty_like_def frame_eq_def mask_and_def set_where_def list.map_comp comp_def
      map2_same_source
    by (rule refl)
  also have "\<dots> = Inr (map (\<lambda>col. map2 cell_code col ground_truth) target_df)"
    using assms(2) by (simp add: column_codes cong: map_cong)
  finally show ?thesis .
qed

text \<open>
  Claim C3, as amended. For every signal matrix with at least one column and a ground
  truth with one value per row, the result has the shape of the matrix and its cell in
  column \<open>j\<close> and row \<open>i\<close> is the code of the pair (prediction, truth): 1 for (1, 1), 2 for
  (-1, -1), 3 for (1, -1), 4 for (-1, 1), and unset (\<open>NaN\<close>) for every other pair, a
  missing value included. The witness is the example of the specification: the
  prediction \<open>[1, -1, 1, -1]\<close> against the truth \<open>[1, 1, -1, -1]\<close> gives \<open>[1, 4, 3, 2]\<close>.
\<close>

theorem detect_tsm_classifications_codes:
  assumes "target_df \<noteq> []"
    and "\<forall>col \<in> set target_df. length col = length ground_truth"
  shows "\<exists>res. detect_tsm_classifications target_df ground_truth = Inr res
    \<and> length res = length target_df
    \<and> (\<forall>j < length target_df. length (res ! j) = length (target_df ! j)
          \<and> (\<forall>i < length ground_truth.
                res ! j ! i = cell_code (target_df ! j ! i) (ground_truth ! i)))"
proof -
  let ?res = "map (\<lambda>col. map2 cell_code col ground_truth) target_df"
  have "detect_tsm_classifications target_df ground_truth = Inr ?res"
    using assms by (rule detect_closed_form)
  moreover have "length ?res = length target_df" by simp
  moreover have "length (?res ! j) = length (target_df ! j)
      \<and> (\<forall>i < length ground_truth. ?res ! j ! i = cell_code (target_df ! j ! i) (ground_truth ! i))"
    if "j < length target_df" for j
  proof -
    have "length (target_df ! j) = length ground_truth"
      using assms(2) that by simp
    with that show ?thesis by simp
  qed
  ultimately show ?thesis by blast
qed

theorem detect_tsm_classifications_codes_witness:
  "detect_tsm_classifications [[Fin 1, Fin (- 1), Fin 1, Fin (- 1)]]
      [Fin 1, Fin 1, Fin (- 1), Fin (- 1)] = Inr [[Fin 1, Fin 4, Fin 3, Fin 2]]"
proof -
  let ?t = "[[Fin 1, Fin (- 1), Fin 1, Fin (- 1)]]"
  let ?g = "[Fin 1, Fin 1, Fin (- 1), Fin (- 1)]"
  have n: "?t \<noteq> []" by simp
  have l: "\<forall>col \<in> set ?t. length col = length ?g" by simp
  obtain res where r: "detect_tsm_classifications ?t ?g = Inr res"
    and n1: "length res = length ?t"
    and c: "\<forall>j < length ?t. length (res ! j) = length (?t ! j)
          \<and> (\<forall>i < length ?g. res ! j ! i = cell_code (?t ! j ! i) (?g ! i))"
    using detect_tsm_classifications_codes[OF n l] by blast
  from n1 obtain col where res: "res = [col]"
    by (cases res) auto
  from c have lc: "length col = 4"
    and cs: "\<forall>i < 4. col ! i = cell_code ([Fin 1, Fin (- 1), Fin 1, Fin (- 1)] ! i) (?g ! i)"
    by (simp_all add: res)
  have "col ! 0 = Fin 1" "col ! 1 = Fin 4" "col ! 2 = Fin 3" "col ! 3 = Fin 2"
    using cs by (simp_all add: cell_code_def)
  moreover have "col = [col ! 0, col ! 1, col ! 2, col ! 3]"
    using lc by (intro nth_equalityI) (auto simp: nth_Cons' less_Suc_eq numeral_eq_Suc)
  ultimately have "col = [Fin 1, Fin 4, Fin 3, Fin 2]" by simp
  with r res show ?thesis by simp
qed

text \<open>
  Claim C3 as stated fails on a matrix without columns (here with two rows): the list
  handed to \<^verbatim>\<open>pd.concat\<close> is empty and the function raises instead of returning a matrix
  of the same shape.
\<close>

theorem detect_tsm_classifications_no_columns:
  "detect_tsm_classifications [] [Fin 1, Fin (- 1)] = Inl ValueError"
  by (simp add: detect_tsm_classifications_def pd_concat_def bind_err_def)

end
